theory Spec2Isabelle
  imports Complex_Main "HOL-Library.Log_Nat" "HOL-Library.Multiset"
begin

section \<open>Conventions of the embedding\<close>

text \<open>
  The development embeds the class \<open>TradingService\<close> of
  server/services/trading-service.ts: the signal engine \<open>analyzeMarket\<close>, the pair
  ranking \<open>getTopTradingPairs\<close>, the position sizing \<open>calculatePositionSize\<close> and the
  per-account scheduler (\<open>startTradingForUser\<close>, the interval callback,
  \<open>runTradingCycle\<close>).

  \<^item> A JavaScript \<open>number\<close> is a \<open>real\<close>. The values \<open>NaN\<close> and \<open>Infinity\<close> are not
    represented; where the source divides by a value that can be zero on a path a
    stated property depends on, the JavaScript result is written out. The arithmetic
    of the signal engine is exact. The arithmetic of the pair ranking
    (\<open>updatePairPerformance\<close>, \<open>getTopTradingPairs\<close>), where the order of two pairs
    can turn on the last bit of a score, rounds the result of every operation to the
    nearest double.
  \<^item> A \<open>Decimal\<close> of decimal.js is a \<open>real\<close> too; its operations round to 20
    significant digits, half up, which are the defaults of that package. The two
    non-finite results \<open>calculatePositionSize\<close> can return are constructors of
    \<open>decimal\<close>.
  \<^item> An exception is a value \<open>Inl e\<close> of \<open>error + 'a\<close>; every \<open>try/catch\<close> of the
    source is a case distinction on it.
  \<^item> The state of the service, the armed interval callbacks of the runtime, the tables
    of the persistence store and the log of calls made to the exchange gateway are the
    fields of one record \<open>state\<close>, threaded through every operation. A callback runs
    atomically: interleaving of the \<open>await\<close> points of two callbacks is not modelled.
  \<^item> The exchange gateway and the package \<open>technicalindicators\<close> are
    collaborators outside the class. They are parameters (\<open>deps\<close>); the replies of the
    gateway may depend on the number of calls made before.
\<close>

section \<open>decimal.js\<close>

text \<open>
  The package decimal.js is an external dependency; the sources never call
  \<open>Decimal.set\<close>, so its documented defaults apply: \<open>precision = 20\<close> significant
  digits and \<open>rounding = 4\<close> (\<open>ROUND_HALF_UP\<close>).

  \<open>dec_exponent x\<close> is the decimal exponent \<open>e\<close> of a non-zero \<open>x\<close>:
  \<open>10^e \<le> |x| < 10^(e+1)\<close>. \<open>round_half_up\<close> is rounding mode 4 (\<open>ROUND_HALF_UP\<close>:
  to the nearest integer, a tie away from zero), the default \<open>Decimal.rounding\<close>.
  \<open>toSignificantDigits\<close> is the rounding every arithmetic operation applies to its
  result, with the default \<open>Decimal.precision = 20\<close>.
\<close>

definition dec_exponent :: "real \<Rightarrow> int" where
  "dec_exponent x =
     (if 1 \<le> \<bar>x\<bar> then int (floorlog 10 (nat \<lfloor>\<bar>x\<bar>\<rfloor>)) - 1
      else - int (floorlog 10 (nat (\<lceil>1 / \<bar>x\<bar>\<rceil> - 1))))"

definition round_half_up :: "real \<Rightarrow> int" where
  "round_half_up x = (if 0 \<le> x then \<lfloor>x + 1 / 2\<rfloor> else - \<lfloor>- x + 1 / 2\<rfloor>)"

definition toSignificantDigits :: "nat \<Rightarrow> real \<Rightarrow> real" where
  "toSignificantDigits p x =
     (if x = 0 then 0
      else of_int (round_half_up (x * 10 powi (int p - 1 - dec_exponent x)))
             / 10 powi (int p - 1 - dec_exponent x))"

definition dec_precision :: nat where
  "dec_precision = 20"

definition dec_dividedBy :: "real \<Rightarrow> real \<Rightarrow> real" where
  "dec_dividedBy x y = toSignificantDigits dec_precision (x / y)"

definition dec_times :: "real \<Rightarrow> real \<Rightarrow> real" where
  "dec_times x y = toSignificantDigits dec_precision (x * y)"

definition toDecimalPlaces :: "nat \<Rightarrow> real \<Rightarrow> real" where
  "toDecimalPlaces dp x = of_int (round_half_up (x * 10 ^ dp)) / 10 ^ dp"

text \<open>
  The value a \<open>Decimal\<close> can print: a finite number, \<open>'Infinity'\<close> or \<open>'NaN'\<close>.
\<close>

datatype decimal = Dec real | DecInfinity | DecNaN

fun greaterThan0 :: "decimal \<Rightarrow> bool" where
  "greaterThan0 (Dec x) = (0 < x)"
| "greaterThan0 DecInfinity = True"
| "greaterThan0 DecNaN = False"

section \<open>IEEE doubles\<close>

text \<open>
  The operators \<open>+\<close>, \<open>-\<close> and \<open>*\<close> of JavaScript on numbers return the exact result
  rounded to the nearest binary64 value, a tie going to the value with the even
  significand. \<open>binary_exponent x\<close> is the \<open>e\<close> with \<open>2^e \<le> |x| < 2^(e+1)\<close>. A normal
  double has 53 significant bits; below \<open>2^-1022\<close> the doubles are the multiples of
  \<open>2^-1074\<close>, which is \<open>Number.MIN_VALUE\<close>. A result of magnitude \<open>2^1024\<close> or more is
  \<open>Infinity\<close> in JavaScript and is not represented. A decimal literal of the source
  denotes the double nearest to it.
\<close>

definition binary_exponent :: "real \<Rightarrow> int" where
  "binary_exponent x =
     (if 1 \<le> \<bar>x\<bar> then int (floorlog 2 (nat \<lfloor>\<bar>x\<bar>\<rfloor>)) - 1
      else - int (floorlog 2 (nat (\<lceil>1 / \<bar>x\<bar>\<rceil> - 1))))"

definition round_half_even :: "real \<Rightarrow> int" where
  "round_half_even x =
     (let n = \<lfloor>x\<rfloor>
      in if x - of_int n < 1 / 2 then n
         else if 1 / 2 < x - of_int n then n + 1
         else if even n then n else n + 1)"

definition round_double :: "real \<Rightarrow> real" where
  "round_double x =
     (if x = 0 then 0
      else let k = 52 - max (binary_exponent x) (- 1022)
           in of_int (round_half_even (x * 2 powi k)) / 2 powi k)"

definition MIN_VALUE :: real where
  "MIN_VALUE = 2 powi (- 1074)"

definition number_plus :: "real \<Rightarrow> real \<Rightarrow> real" where
  "number_plus x y = round_double (x + y)"

definition number_minus :: "real \<Rightarrow> real \<Rightarrow> real" where
  "number_minus x y = round_double (x - y)"

definition number_times :: "real \<Rightarrow> real \<Rightarrow> real" where
  "number_times x y = round_double (x * y)"

section \<open>Data of the trading service\<close>

datatype side = Buy | Sell

datatype error =
    NotEnoughData
  | UnsupportedStrategy string
  | NoTradingSettings
  | TypeError
  | GatewayError string
  | StoreError string

record HistoricalCandle =
  candle_time :: nat
  candle_open :: real
  candle_high :: real
  candle_low :: real
  candle_close :: real
  candle_volume :: real

record TradeSignal =
  sig_symbol :: string
  sig_side :: side
  sig_price :: real
  sig_time :: nat
  sig_strategy :: string
  sig_confidence :: real
  sig_indicators :: "(string \<times> real option) list"

section \<open>The indicator package\<close>

text \<open>
  \<open>analyzeMarket\<close> calls four indicators of the package \<open>technicalindicators\<close>, which is
  not part of the repository. \<open>ti_lib\<close> is the interface it uses; a row of the MACD
  output has an undefined \<open>signal\<close> and \<open>histogram\<close> until the signal line starts.
\<close>

record MACDOutput =
  MACD :: real
  signal :: "real option"
  histogram :: "real option"

record BollingerBandsOutput =
  bb_middle :: real
  bb_upper :: real
  bb_lower :: real
  bb_pb :: real

record ti_lib =
  ti_MACD :: "real list \<Rightarrow> nat \<Rightarrow> nat \<Rightarrow> nat \<Rightarrow> MACDOutput list"
  ti_RSI :: "real list \<Rightarrow> nat \<Rightarrow> real list"
  ti_BollingerBands :: "real list \<Rightarrow> nat \<Rightarrow> real \<Rightarrow> BollingerBandsOutput list"
  ti_EMA :: "real list \<Rightarrow> nat \<Rightarrow> real list"

text \<open>
  Modelled from the spec: the indicators its section 4.1 and glossary name (EMA, MACD
  from two EMAs, RSI as an oscillator bounded by 0 and 100, Bollinger bands as a moving
  average plus and minus a multiple of the rolling standard deviation), in the form the
  package documents them. The package is an external dependency, imported at line 5 of
  trading-service.ts; its code is not part of the repository.
  \<^item> \<open>EMA\<close>: the first value is the simple average of the first \<open>period\<close> inputs, each
    later value is \<open>(x - prev) * k + prev\<close> with \<open>k = 2 / (period + 1)\<close>;
  \<^item> \<open>MACD\<close>: fast EMA minus slow EMA from the first input at which the slow EMA
    exists, the signal line is the EMA of that difference, the histogram their difference;
  \<^item> \<open>RSI\<close>: Wilder's averages of the gains and of the losses, 100 when the average
    loss is zero, 0 when the average gain is zero, otherwise \<open>100 - 100 / (1 + RS)\<close>
    rounded to two decimals;
  \<^item> \<open>BollingerBands\<close>: the simple average of each window of \<open>period\<close> inputs, plus and
    minus \<open>stdDev\<close> times the population standard deviation of the window.
\<close>

definition sma :: "real list \<Rightarrow> real" where
  "sma xs = sum_list xs / real (length xs)"

fun ema_run :: "real \<Rightarrow> real \<Rightarrow> real list \<Rightarrow> real list" where
  "ema_run k prev [] = []"
| "ema_run k prev (x # xs) = ((x - prev) * k + prev) # ema_run k ((x - prev) * k + prev) xs"

definition EMA_calculate :: "real list \<Rightarrow> nat \<Rightarrow> real list" where
  "EMA_calculate values period =
     (if period = 0 \<or> length values < period then []
      else sma (take period values)
             # ema_run (2 / (real period + 1)) (sma (take period values)) (drop period values))"

definition MACD_calculate :: "real list \<Rightarrow> nat \<Rightarrow> nat \<Rightarrow> nat \<Rightarrow> MACDOutput list" where
  "MACD_calculate values fastPeriod slowPeriod signalPeriod =
     (let fast = EMA_calculate values fastPeriod;
          slow = EMA_calculate values slowPeriod;
          macd = map2 (\<lambda>f s. f - s) (drop (slowPeriod - fastPeriod) fast) slow;
          sigs = replicate (signalPeriod - 1) None @ map Some (EMA_calculate macd signalPeriod)
      in map2 (\<lambda>m s. \<lparr>MACD = m, signal = s, histogram = map_option (\<lambda>v. m - v) s\<rparr>) macd sigs)"

fun changes :: "real list \<Rightarrow> real list" where
  "changes (a # b # xs) = (b - a) # changes (b # xs)"
| "changes xs = []"

fun wilder_run :: "nat \<Rightarrow> real \<Rightarrow> real list \<Rightarrow> real list" where
  "wilder_run period prev [] = []"
| "wilder_run period prev (x # xs) =
     ((prev * real (period - 1) + x) / real period)
       # wilder_run period ((prev * real (period - 1) + x) / real period) xs"

definition wilder_average :: "nat \<Rightarrow> real list \<Rightarrow> real list" where
  "wilder_average period xs =
     (if period = 0 \<or> length xs < period then []
      else (sum_list (take period xs) / real period)
             # wilder_run period (sum_list (take period xs) / real period) (drop period xs))"

definition rsi_value :: "real \<Rightarrow> real \<Rightarrow> real" where
  "rsi_value avgGain avgLoss =
     (if avgLoss = 0 then 100
      else if avgGain = 0 then 0
      else of_int \<lfloor>(100 - 100 / (1 + avgGain / avgLoss)) * 100 + 1 / 2\<rfloor> / 100)"

definition RSI_calculate :: "real list \<Rightarrow> nat \<Rightarrow> real list" where
  "RSI_calculate values period =
     map2 rsi_value
       (wilder_average period (map (\<lambda>d. max d 0) (changes values)))
       (wilder_average period (map (\<lambda>d. max (- d) 0) (changes values)))"

definition windows :: "nat \<Rightarrow> real list \<Rightarrow> real list list" where
  "windows n xs = (if n = 0 then [] else map (\<lambda>i. take n (drop i xs)) [0 ..< length xs + 1 - n])"

definition standard_deviation :: "real list \<Rightarrow> real" where
  "standard_deviation w = sqrt (sum_list (map (\<lambda>x. (x - sma w)\<^sup>2) w) / real (length w))"

definition BollingerBands_calculate :: "real list \<Rightarrow> nat \<Rightarrow> real \<Rightarrow> BollingerBandsOutput list" where
  "BollingerBands_calculate values period stdDev =
     map (\<lambda>w. \<lparr>bb_middle = sma w,
                bb_upper = sma w + stdDev * standard_deviation w,
                bb_lower = sma w - stdDev * standard_deviation w,
                bb_pb = (last w - (sma w - stdDev * standard_deviation w))
                          / (2 * stdDev * standard_deviation w)\<rparr>)
         (windows period values)"

definition technicalindicators :: ti_lib where
  "technicalindicators =
     \<lparr>ti_MACD = MACD_calculate, ti_RSI = RSI_calculate,
      ti_BollingerBands = BollingerBands_calculate, ti_EMA = EMA_calculate\<rparr>"

section \<open>Signal engine\<close>

text \<open>
  \<open>calculateConfidence\<close> reads three fields of the row \<open>current\<close> and ignores
  \<open>previous\<close>; it is applied to those fields. It is reached only on a row whose
  \<open>signal\<close> is defined, since both crossover tests of \<open>analyzeMarket\<close> compare with
  \<open>signal\<close> and a comparison with \<open>undefined\<close> is false. An undefined \<open>histogram\<close>
  fails both tests \<open>current.histogram > 0\<close> and \<open>current.histogram < 0\<close>.
\<close>

definition calculateConfidence :: "string \<Rightarrow> side \<Rightarrow> real \<Rightarrow> real \<Rightarrow> real option \<Rightarrow> real" where
  "calculateConfidence strategy sd currentMACD currentSignal currentHistogram =
     (if strategy = ''MACD'' then
        (let confidence = 70;
             crossoverStrength = \<bar>currentMACD - currentSignal\<bar>;
             confidence = confidence + crossoverStrength * 10;
             confidence =
               (if sd = Buy \<and> (case currentHistogram of Some h \<Rightarrow> 0 < h | None \<Rightarrow> False)
                  then confidence + 5
                else if sd = Sell \<and> (case currentHistogram of Some h \<Rightarrow> h < 0 | None \<Rightarrow> False)
                  then confidence + 5
                else confidence)
         in min confidence 95)
      else 70)"

text \<open>
  \<open>analyzeMarket\<close>. The strategy is the string the caller passes (the cast
  \<open>strategyName as Strategy\<close> checks nothing at run time), so the \<open>default\<close> branch of
  the \<open>switch\<close> is reachable. The symbol of every signal is the constant of line 378.

  Two divisions are written out. In the BOLLINGER branches the divisor
  \<open>upper - lower\<close> can be zero while the numerator is positive: JavaScript yields
  \<open>Infinity\<close> and \<open>Math.min(70 + Infinity, 95) = 95\<close>. In the EMA branches the divisor
  \<open>currentLongEMA\<close> can be zero while \<open>currentShortEMA\<close> differs from it: again
  \<open>Infinity\<close>, and the confidence is 95.
\<close>

definition analyzeMarket :: "ti_lib \<Rightarrow> HistoricalCandle list \<Rightarrow> string \<Rightarrow> error + TradeSignal option" where
  "analyzeMarket ti candles strategy =
     (if length candles < 50 then Inl NotEnoughData
      else
        let closes = map candle_close candles;
            latestCandle = last candles;
            symbol = ''BTCUSDT''
        in
        if strategy = ''MACD'' then
          (let macdResults = ti_MACD ti closes 12 26 9 in
           if length macdResults < 2 then Inr None
           else
             let current = last macdResults;
                 previous = macdResults ! (length macdResults - 2)
             in (case (signal previous, signal current) of
                   (Some previousSignal, Some currentSignal) \<Rightarrow>
                     if MACD previous < previousSignal \<and> MACD current > currentSignal then
                       Inr (Some \<lparr>sig_symbol = symbol, sig_side = Buy,
                                  sig_price = candle_close latestCandle,
                                  sig_time = candle_time latestCandle,
                                  sig_strategy = ''MACD'',
                                  sig_confidence =
                                    calculateConfidence ''MACD'' Buy (MACD current) currentSignal
                                      (histogram current),
                                  sig_indicators =
                                    [(''macd'', Some (MACD current)), (''signal'', signal current),
                                     (''histogram'', histogram current)]\<rparr>)
                     else if MACD previous > previousSignal \<and> MACD current < currentSignal then
                       Inr (Some \<lparr>sig_symbol = symbol, sig_side = Sell,
                                  sig_price = candle_close latestCandle,
                                  sig_time = candle_time latestCandle,
                                  sig_strategy = ''MACD'',
                                  sig_confidence =
                                    calculateConfidence ''MACD'' Sell (MACD current) currentSignal
                                      (histogram current),
                                  sig_indicators =
                                    [(''macd'', Some (MACD current)), (''signal'', signal current),
                                     (''histogram'', histogram current)]\<rparr>)
                     else Inr None
                 | _ \<Rightarrow> Inr None))
        else if strategy = ''RSI'' then
          (let rsiResults = ti_RSI ti closes 14 in
           if length rsiResults < 1 then Inr None
           else
             let currentRSI = last rsiResults in
             if currentRSI < 30 then
               Inr (Some \<lparr>sig_symbol = symbol, sig_side = Buy,
                          sig_price = candle_close latestCandle,
                          sig_time = candle_time latestCandle,
                          sig_strategy = ''RSI'',
                          sig_confidence = 80 - currentRSI,
                          sig_indicators = [(''rsi'', Some currentRSI)]\<rparr>)
             else if currentRSI > 70 then
               Inr (Some \<lparr>sig_symbol = symbol, sig_side = Sell,
                          sig_price = candle_close latestCandle,
                          sig_time = candle_time latestCandle,
                          sig_strategy = ''RSI'',
                          sig_confidence = currentRSI - 20,
                          sig_indicators = [(''rsi'', Some currentRSI)]\<rparr>)
             else Inr None)
        else if strategy = ''BOLLINGER'' then
          (let bbandsResults = ti_BollingerBands ti closes 20 2 in
           if length bbandsResults < 1 then Inr None
           else
             let current = last bbandsResults;
                 price = candle_close latestCandle
             in
             if price < bb_lower current then
               (let percentFromLower =
                      (bb_lower current - price) / (bb_upper current - bb_lower current) * 100
                in Inr (Some \<lparr>sig_symbol = symbol, sig_side = Buy,
                             sig_price = price,
                             sig_time = candle_time latestCandle,
                             sig_strategy = ''BOLLINGER'',
                             sig_confidence =
                               (if bb_upper current = bb_lower current then 95
                                else min (70 + percentFromLower) 95),
                             sig_indicators =
                               [(''upper'', Some (bb_upper current)),
                                (''middle'', Some (bb_middle current)),
                                (''lower'', Some (bb_lower current))]\<rparr>))
             else if price > bb_upper current then
               (let percentFromUpper =
                      (price - bb_upper current) / (bb_upper current - bb_lower current) * 100
                in Inr (Some \<lparr>sig_symbol = symbol, sig_side = Sell,
                             sig_price = price,
                             sig_time = candle_time latestCandle,
                             sig_strategy = ''BOLLINGER'',
                             sig_confidence =
                               (if bb_upper current = bb_lower current then 95
                                else min (70 + percentFromUpper) 95),
                             sig_indicators =
                               [(''upper'', Some (bb_upper current)),
                                (''middle'', Some (bb_middle current)),
                                (''lower'', Some (bb_lower current))]\<rparr>))
             else Inr None)
        else if strategy = ''EMA'' then
          (let shortEMA = ti_EMA ti closes 9;
               longEMA = ti_EMA ti closes 21
           in
           if length shortEMA < 2 \<or> length longEMA < 2 then Inr None
           else
             let currentShortEMA = last shortEMA;
                 previousShortEMA = shortEMA ! (length shortEMA - 2);
                 currentLongEMA = last longEMA;
                 previousLongEMA = longEMA ! (length longEMA - 2);
                 emaDiff = \<bar>currentShortEMA - currentLongEMA\<bar> / currentLongEMA * 100
             in
             if previousShortEMA < previousLongEMA \<and> currentShortEMA > currentLongEMA then
               Inr (Some \<lparr>sig_symbol = symbol, sig_side = Buy,
                          sig_price = candle_close latestCandle,
                          sig_time = candle_time latestCandle,
                          sig_strategy = ''EMA'',
                          sig_confidence =
                            (if currentLongEMA = 0 then 95 else min (70 + emaDiff * 10) 95),
                          sig_indicators =
                            [(''shortEMA'', Some currentShortEMA),
                             (''longEMA'', Some currentLongEMA)]\<rparr>)
             else if previousShortEMA > previousLongEMA \<and> currentShortEMA < currentLongEMA then
               Inr (Some \<lparr>sig_symbol = symbol, sig_side = Sell,
                          sig_price = candle_close latestCandle,
                          sig_time = candle_time latestCandle,
                          sig_strategy = ''EMA'',
                          sig_confidence =
                            (if currentLongEMA = 0 then 95 else min (70 + emaDiff * 10) 95),
                          sig_indicators =
                            [(''shortEMA'', Some currentShortEMA),
                             (''longEMA'', Some currentLongEMA)]\<rparr>)
             else Inr None)
        else Inl (UnsupportedStrategy strategy))"

section \<open>Position sizing\<close>

text \<open>
  \<open>calculatePositionSize\<close>. The three strings are the numbers they denote. With a price
  of zero decimal.js does not throw: the quotient is \<open>Infinity\<close>, \<open>-Infinity\<close> or
  \<open>NaN\<close>; \<open>-Infinity\<close> is less than 0.00001 and gives \<open>'0'\<close>, the other two pass
  the test \<open>lessThan\<close> and are printed. \<open>positionSizeQuotient\<close> is the local
  \<open>positionSize\<close> of the source.
\<close>

definition positionSizeQuotient :: "real \<Rightarrow> real \<Rightarrow> real \<Rightarrow> real" where
  "positionSizeQuotient availableBalance riskPercentage price =
     (let balanceDecimal = availableBalance;
          riskPercentageDecimal = dec_dividedBy riskPercentage 100;
          riskAmount = dec_times balanceDecimal riskPercentageDecimal;
          priceDecimal = price
      in dec_dividedBy riskAmount priceDecimal)"

definition calculatePositionSize :: "real \<Rightarrow> real \<Rightarrow> real \<Rightarrow> side \<Rightarrow> decimal" where
  "calculatePositionSize availableBalance riskPercentage price sd =
     (let riskAmount = dec_times availableBalance (dec_dividedBy riskPercentage 100) in
      if price = 0 then
        (if riskAmount = 0 then DecNaN
         else if 0 < riskAmount then DecInfinity
         else Dec 0)
      else
        let positionSize = positionSizeQuotient availableBalance riskPercentage price in
        if positionSize < 1 / 100000 then Dec 0
        else Dec (toDecimalPlaces 5 positionSize))"

section \<open>State of the service, the store and the gateway\<close>

record TradingSettings =
  ts_id :: nat
  ts_userId :: nat
  ts_symbol :: string
  ts_timeframe :: string
  ts_strategy :: string
  ts_riskPerTrade :: real
  ts_leverageLevel :: nat
  ts_enabledTrading :: bool

record Trade =
  tr_userId :: nat
  tr_symbol :: string
  tr_side :: side
  tr_entryPrice :: real
  tr_quantity :: decimal
  tr_status :: string
  tr_strategy :: string
  tr_orderId :: string
  tr_confidence :: real
  tr_indicators :: "(string \<times> real option) list"
  tr_timestamp :: nat

record AccountSummary =
  acc_totalBalance :: real
  acc_availableBalance :: real
  acc_frozenBalance :: real
  acc_unrealizedPnl :: real
  acc_marginBalance :: real

record BalanceHistory =
  bh_userId :: nat
  bh_totalBalance :: real
  bh_availableBalance :: real
  bh_frozenBalance :: real
  bh_unrealizedPnl :: real
  bh_marginBalance :: real
  bh_timestamp :: nat

record TradeParams =
  tp_symbol :: string
  tp_side :: side
  tp_size :: decimal
  tp_orderType :: string

datatype gateway_call =
    GetKlines string string nat
  | GetAccountBalance
  | ExecuteTrade TradeParams

text \<open>
  The replies of \<open>bitgetService\<close>. The first argument of each field is the number of
  gateway calls made before, so that two calls of one callback can be answered
  differently. \<open>gw_getKlines\<close> returns the candles \<open>getHistoricalData\<close> builds from the
  rows (the conversion by \<open>parseInt\<close> and \<open>parseFloat\<close> is not modelled);
  \<open>gw_executeTrade\<close> returns the \<open>orderId\<close> of the response. \<open>now\<close> is \<open>Date.now()\<close>.
\<close>

record gateway =
  gw_getKlines :: "nat \<Rightarrow> string \<Rightarrow> string \<Rightarrow> nat \<Rightarrow> error + HistoricalCandle list"
  gw_getAccountBalance :: "nat \<Rightarrow> error + AccountSummary"
  gw_executeTrade :: "nat \<Rightarrow> TradeParams \<Rightarrow> error + string"

record deps =
  ti :: ti_lib
  gw :: gateway
  now :: nat

record PairPerformance =
  volatility :: real
  successRate :: real
  lastUpdated :: nat

text \<open>
  \<open>runningIntervals\<close> is keyed by the user id (the source's key \<open>user-<id>\<close> is an
  injective image of it) and holds the handle \<open>setInterval\<close> returned. \<open>timers\<close> is the
  runtime's table of armed intervals: the handle, and the \<open>userId\<close> and \<open>settings\<close>
  the callback closed over. The period of an interval (\<open>convertTimeframeToMs\<close>) only
  fixes when its callback runs, which is not modelled.
\<close>

record state =
  isRunning :: bool
  runningIntervals :: "nat \<rightharpoonup> nat"
  confidenceThreshold :: real
  maxConcurrentTrades :: nat
  tradingPairs :: "(string \<times> real) list"
  pairPerformance :: "string \<rightharpoonup> PairPerformance"
  timers :: "(nat \<times> nat \<times> TradingSettings) list"
  nextHandle :: nat
  tradingSettingsTable :: "TradingSettings list"
  tradesTable :: "Trade list"
  balanceHistoryTable :: "BalanceHistory list"
  gatewayCalls :: "gateway_call list"

text \<open>The fields as the constructor leaves them, over an empty store.\<close>

definition defaultTradingPairs :: "(string \<times> real) list" where
  "defaultTradingPairs =
     [(''BTCUSDT'', round_double (3 / 10)), (''ETHUSDT'', round_double (25 / 100)),
      (''BNBUSDT'', round_double (2 / 10)), (''XRPUSDT'', round_double (15 / 100)),
      (''DOGEUSDT'', round_double (1 / 10))]"

definition newTradingService :: "nat \<Rightarrow> state" where
  "newTradingService t =
     \<lparr>isRunning = False,
      runningIntervals = Map.empty,
      confidenceThreshold = 70,
      maxConcurrentTrades = 3,
      tradingPairs = defaultTradingPairs,
      pairPerformance =
        map_of (map (\<lambda>(symb, w). (symb, \<lparr>volatility = 0, successRate = 0, lastUpdated = t\<rparr>))
                    defaultTradingPairs),
      timers = [],
      nextHandle = 0,
      tradingSettingsTable = [],
      tradesTable = [],
      balanceHistoryTable = [],
      gatewayCalls = []\<rparr>"

subsection \<open>The persistence store\<close>

definition getTradingSettings :: "state \<Rightarrow> nat \<Rightarrow> TradingSettings option" where
  "getTradingSettings st userId = find (\<lambda>s. ts_userId s = userId) (tradingSettingsTable st)"

definition getOpenTrades :: "state \<Rightarrow> nat \<Rightarrow> Trade list" where
  "getOpenTrades st userId =
     filter (\<lambda>t. tr_userId t = userId \<and> tr_status t = ''OPEN'') (tradesTable st)"

definition createTrade :: "Trade \<Rightarrow> state \<Rightarrow> state" where
  "createTrade trade st = st\<lparr>tradesTable := tradesTable st @ [trade]\<rparr>"

definition saveBalance :: "BalanceHistory \<Rightarrow> state \<Rightarrow> state" where
  "saveBalance b st = st\<lparr>balanceHistoryTable := balanceHistoryTable st @ [b]\<rparr>"

section \<open>Pair ranking\<close>

text \<open>
  \<open>Array.prototype.sort\<close> with a comparator is a stable sort: \<open>a\<close> comes before \<open>b\<close>
  when \<open>compare(a, b) < 0\<close>, after it when \<open>compare(a, b) > 0\<close>, and two elements that
  compare equal keep their order. \<open>array_sort\<close> builds that order by insertion from the
  right. Reading \<open>performance.volatility\<close> of a pair without an entry in
  \<open>pairPerformance\<close> throws a \<open>TypeError\<close>. The score and the difference the
  comparator returns are computed in doubles.
\<close>

fun insert_sorted :: "('a \<Rightarrow> 'a \<Rightarrow> real) \<Rightarrow> 'a \<Rightarrow> 'a list \<Rightarrow> 'a list" where
  "insert_sorted compare x [] = [x]"
| "insert_sorted compare x (y # ys) =
     (if compare x y \<le> 0 then x # y # ys else y # insert_sorted compare x ys)"

definition array_sort :: "('a \<Rightarrow> 'a \<Rightarrow> real) \<Rightarrow> 'a list \<Rightarrow> 'a list" where
  "array_sort compare xs = foldr (insert_sorted compare) xs []"

definition pairScore :: "PairPerformance \<Rightarrow> real \<Rightarrow> real" where
  "pairScore performance weight =
     number_plus
       (number_plus weight (number_times (volatility performance) (round_double (3 / 10))))
       (number_times (successRate performance) (round_double (5 / 10)))"

fun pairScores :: "(string \<rightharpoonup> PairPerformance) \<Rightarrow> (string \<times> real) list
                     \<Rightarrow> error + (string \<times> real) list" where
  "pairScores perf [] = Inr []"
| "pairScores perf ((symb, weight) # pairs) =
     (case perf symb of
        None \<Rightarrow> Inl TypeError
      | Some performance \<Rightarrow>
          (case pairScores perf pairs of
             Inl e \<Rightarrow> Inl e
           | Inr rest \<Rightarrow> Inr ((symb, pairScore performance weight) # rest)))"

definition getTopTradingPairs :: "state \<Rightarrow> nat \<Rightarrow> error + string list" where
  "getTopTradingPairs st cnt =
     (case pairScores (pairPerformance st) (tradingPairs st) of
        Inl e \<Rightarrow> Inl e
      | Inr scores \<Rightarrow>
          Inr (map fst (take cnt (array_sort (\<lambda>a b. number_minus (snd b) (snd a)) scores))))"

section \<open>Scheduler\<close>

definition hasReachedMaxTrades :: "state \<Rightarrow> nat \<Rightarrow> bool" where
  "hasReachedMaxTrades st userId = (length (getOpenTrades st userId) \<ge> maxConcurrentTrades st)"

definition updatePairPerformance :: "deps \<Rightarrow> string \<Rightarrow> bool \<Rightarrow> real \<Rightarrow> state \<Rightarrow> state" where
  "updatePairPerformance d symbol tradeSuccess vol st =
     (case pairPerformance st symbol of
        None \<Rightarrow> st
      | Some performance \<Rightarrow>
          st\<lparr>pairPerformance := (pairPerformance st)(symbol \<mapsto>
               \<lparr>volatility =
                  number_plus (number_times (volatility performance) (round_double (8 / 10)))
                              (number_times vol (round_double (2 / 10))),
                successRate =
                  number_plus (number_times (successRate performance) (round_double (7 / 10)))
                              (number_times (if tradeSuccess then 1 else 0)
                                            (round_double (3 / 10))),
                lastUpdated = now d\<rparr>)\<rparr>)"

text \<open>
  \<open>calculateVolatility\<close>: the standard deviation of the relative changes of the closes,
  as a percentage. The value is only stored by \<open>updatePairPerformance\<close>; a close of
  zero or fewer than two candles make it \<open>Infinity\<close> or \<open>NaN\<close> in JavaScript and
  an unspecified real here.
\<close>

fun returns_of :: "real list \<Rightarrow> real list" where
  "returns_of (a # b # xs) = ((b - a) / a) # returns_of (b # xs)"
| "returns_of xs = []"

definition calculateVolatility :: "HistoricalCandle list \<Rightarrow> real" where
  "calculateVolatility candles =
     (let closes = map candle_close candles;
          returns = returns_of closes;
          mean = sum_list returns / real (length returns);
          squaredDiffs = map (\<lambda>val. (val - mean)\<^sup>2) returns;
          variance = sum_list squaredDiffs / real (length squaredDiffs)
      in sqrt variance * 100)"

definition getHistoricalData ::
  "deps \<Rightarrow> string \<Rightarrow> string \<Rightarrow> nat \<Rightarrow> state \<Rightarrow> (error + HistoricalCandle list) \<times> state" where
  "getHistoricalData d symbol interval limit st =
     (gw_getKlines (gw d) (length (gatewayCalls st)) symbol interval limit,
      st\<lparr>gatewayCalls := gatewayCalls st @ [GetKlines symbol interval limit]\<rparr>)"

definition getAccountBalance :: "deps \<Rightarrow> state \<Rightarrow> (error + AccountSummary) \<times> state" where
  "getAccountBalance d st =
     (gw_getAccountBalance (gw d) (length (gatewayCalls st)),
      st\<lparr>gatewayCalls := gatewayCalls st @ [GetAccountBalance]\<rparr>)"

definition executeTrade ::
  "deps \<Rightarrow> nat \<Rightarrow> TradeSignal \<Rightarrow> decimal \<Rightarrow> state \<Rightarrow> (error + string) \<times> state" where
  "executeTrade d userId sg sz st =
     (let params = \<lparr>tp_symbol = sig_symbol sg, tp_side = sig_side sg, tp_size = sz,
                     tp_orderType = ''market''\<rparr>;
          st1 = st\<lparr>gatewayCalls := gatewayCalls st @ [ExecuteTrade params]\<rparr>
      in case gw_executeTrade (gw d) (length (gatewayCalls st)) params of
           Inl e \<Rightarrow> (Inl e, st1)
         | Inr orderId \<Rightarrow>
             (Inr orderId,
              createTrade
                \<lparr>tr_userId = userId, tr_symbol = sig_symbol sg, tr_side = sig_side sg,
                 tr_entryPrice = sig_price sg, tr_quantity = sz, tr_status = ''OPEN'',
                 tr_strategy = sig_strategy sg, tr_orderId = orderId,
                 tr_confidence = sig_confidence sg, tr_indicators = sig_indicators sg,
                 tr_timestamp = sig_time sg\<rparr>
                st1))"

definition recordBalance :: "deps \<Rightarrow> nat \<Rightarrow> AccountSummary \<Rightarrow> state \<Rightarrow> state" where
  "recordBalance d userId balance st =
     saveBalance
       \<lparr>bh_userId = userId, bh_totalBalance = acc_totalBalance balance,
        bh_availableBalance = acc_availableBalance balance,
        bh_frozenBalance = acc_frozenBalance balance,
        bh_unrealizedPnl = acc_unrealizedPnl balance,
        bh_marginBalance = acc_marginBalance balance,
        bh_timestamp = now d\<rparr>
       st"

text \<open>
  Steps 5 to 10 of \<open>runTradingCycle\<close>, taken when a signal reaches the threshold: the
  balance, the second check of the cap, the size, and the order inside the inner
  \<open>try/catch\<close>. An exception of \<open>getAccountBalance\<close> leaves through the outer
  \<open>catch\<close>, which only logs.
\<close>

definition executeSignal ::
  "deps \<Rightarrow> nat \<Rightarrow> string \<Rightarrow> real \<Rightarrow> real \<Rightarrow> TradeSignal \<Rightarrow> state \<Rightarrow> state" where
  "executeSignal d userId symbol riskPerTrade vol sg st =
     (case getAccountBalance d st of
        (Inl e, st1) \<Rightarrow> st1
      | (Inr balance, st1) \<Rightarrow>
          if hasReachedMaxTrades st1 userId then st1
          else
            let positionSize =
                  calculatePositionSize (acc_availableBalance balance) riskPerTrade
                    (sig_price sg) (sig_side sg)
            in if greaterThan0 positionSize then
                 (case executeTrade d userId sg positionSize st1 of
                    (Inl tradeError, st2) \<Rightarrow> updatePairPerformance d symbol False vol st2
                  | (Inr orderId, st2) \<Rightarrow>
                      updatePairPerformance d symbol True vol (recordBalance d userId balance st2))
               else st1)"

definition runTradingCycle :: "deps \<Rightarrow> nat \<Rightarrow> string \<Rightarrow> string \<Rightarrow> real \<Rightarrow> state \<Rightarrow> state" where
  "runTradingCycle d userId symbol strategyName riskPerTrade st =
     (case getHistoricalData d symbol ''15m'' 100 st of
        (Inl e, st1) \<Rightarrow> st1
      | (Inr candles, st1) \<Rightarrow>
          let vol = calculateVolatility candles in
          (case analyzeMarket (ti d) candles strategyName of
             Inl e \<Rightarrow> st1
           | Inr None \<Rightarrow> updatePairPerformance d symbol True vol st1
           | Inr (Some sg) \<Rightarrow>
               if sig_confidence sg \<ge> confidenceThreshold st1
               then executeSignal d userId symbol riskPerTrade vol sg st1
               else updatePairPerformance d symbol True vol st1))"

text \<open>
  The callback \<open>startTradingForUser\<close> passes to \<open>setInterval\<close>. \<open>userId\<close> and
  \<open>settings\<close> are the values the closure captured when the interval was armed.
\<close>

definition tick :: "deps \<Rightarrow> nat \<Rightarrow> TradingSettings \<Rightarrow> state \<Rightarrow> state" where
  "tick d userId settings st =
     (if hasReachedMaxTrades st userId then st
      else
        case (if ts_strategy settings = ''ENSEMBLE'' \<or> ts_strategy settings = ''AUTO''
              then getTopTradingPairs st 3
              else Inr [ts_symbol settings]) of
          Inl e \<Rightarrow> st
        | Inr symbols \<Rightarrow>
            fold (\<lambda>symbol. runTradingCycle d userId symbol (ts_strategy settings)
                              (ts_riskPerTrade settings))
                 symbols st)"

text \<open>
  \<open>startTradingForUser\<close>. The body is one \<open>try\<close> block whose \<open>catch\<close> logs and returns
  \<open>false\<close>. Two exceptions reach it: the one \<open>storage.getTradingSettings\<close> is rejected
  with when the database call fails (\<open>storeFailure\<close> is that exception, \<open>None\<close> when the
  store answers from its table), and the \<open>Error\<close> thrown when the store has no settings
  for the user. Nothing has been changed when either is thrown.
\<close>

definition startTradingForUser :: "error option \<Rightarrow> nat \<Rightarrow> state \<Rightarrow> bool \<times> state" where
  "startTradingForUser storeFailure userId st =
     (case (case storeFailure of
              Some e \<Rightarrow> Inl e
            | None \<Rightarrow>
                (case getTradingSettings st userId of
                   None \<Rightarrow> Inl NoTradingSettings
                 | Some settings \<Rightarrow> Inr settings)) of
        Inl e \<Rightarrow> (False, st)
      | Inr settings \<Rightarrow>
          if \<not> ts_enabledTrading settings then (False, st)
          else
            let intervalId = nextHandle st
            in (True,
                st\<lparr>timers := timers st @ [(intervalId, userId, settings)],
                   nextHandle := intervalId + 1,
                   runningIntervals := (runningIntervals st)(userId \<mapsto> intervalId),
                   isRunning := True\<rparr>))"

definition stopTradingForUser :: "nat \<Rightarrow> state \<Rightarrow> bool \<times> state" where
  "stopTradingForUser userId st =
     (case runningIntervals st userId of
        None \<Rightarrow> (False, st)
      | Some intervalId \<Rightarrow>
          (True,
           st\<lparr>timers := filter (\<lambda>t. fst t \<noteq> intervalId) (timers st),
              runningIntervals := (runningIntervals st)(userId := None)\<rparr>))"

text \<open>One firing of the armed interval with handle \<open>h\<close>; nothing happens if it is not armed.\<close>

definition fireTimer :: "deps \<Rightarrow> nat \<Rightarrow> state \<Rightarrow> state" where
  "fireTimer d h st =
     (case find (\<lambda>t. fst t = h) (timers st) of
        None \<Rightarrow> st
      | Some (_, userId, settings) \<Rightarrow> tick d userId settings st)"

text \<open>
  Handles are fresh: every armed interval has a handle below the next one to be issued.
  This holds after the constructor and is kept by starting, stopping and firing.
\<close>

definition handlesFresh :: "state \<Rightarrow> bool" where
  "handlesFresh st = list_all (\<lambda>t. fst t < nextHandle st) (timers st)"

definition ordersSubmitted :: "state \<Rightarrow> TradeParams list" where
  "ordersSubmitted st = concat (map (\<lambda>c. case c of ExecuteTrade p \<Rightarrow> [p] | _ \<Rightarrow> []) (gatewayCalls st))"

definition candleFetches :: "state \<Rightarrow> gateway_call list" where
  "candleFetches st = filter (\<lambda>c. case c of GetKlines _ _ _ \<Rightarrow> True | _ \<Rightarrow> False) (gatewayCalls st)"

section \<open>A worked scenario\<close>

text \<open>
  Fifty candles whose closes fall from 99 to 50, a gateway that always answers with
  them, with a balance of 1000 and with an accepted order, and an account (user 1)
  configured for the pair ETHUSDT and the strategy RSI at 1 percent risk.
\<close>

definition falling_candles :: "HistoricalCandle list" where
  "falling_candles =
     map (\<lambda>i. \<lparr>candle_time = i, candle_open = 99 - real i, candle_high = 99 - real i,
                candle_low = 99 - real i, candle_close = 99 - real i, candle_volume = 1\<rparr>)
         [0 ..< 50]"

definition ex_gateway :: gateway where
  "ex_gateway =
     \<lparr>gw_getKlines = (\<lambda>n symbol interval limit. Inr falling_candles),
      gw_getAccountBalance =
        (\<lambda>n. Inr \<lparr>acc_totalBalance = 1000, acc_availableBalance = 1000, acc_frozenBalance = 0,
                   acc_unrealizedPnl = 0, acc_marginBalance = 0\<rparr>),
      gw_executeTrade = (\<lambda>n params. Inr ''order-1'')\<rparr>"

definition ex_deps :: deps where
  "ex_deps = \<lparr>ti = technicalindicators, gw = ex_gateway, now = 0\<rparr>"

definition ex_settings :: TradingSettings where
  "ex_settings =
     \<lparr>ts_id = 1, ts_userId = 1, ts_symbol = ''ETHUSDT'', ts_timeframe = ''15m'',
      ts_strategy = ''RSI'', ts_riskPerTrade = 1, ts_leverageLevel = 1,
      ts_enabledTrading = True\<rparr>"

definition ex_state :: state where
  "ex_state = (newTradingService 0)\<lparr>tradingSettingsTable := [ex_settings]\<rparr>"

definition ex_open_trade :: Trade where
  "ex_open_trade =
     \<lparr>tr_userId = 1, tr_symbol = ''BTCUSDT'', tr_side = Buy, tr_entryPrice = 50,
      tr_quantity = Dec (1 / 5), tr_status = ''OPEN'', tr_strategy = ''RSI'',
      tr_orderId = ''order-0'', tr_confidence = 80, tr_indicators = [],
      tr_timestamp = 0\<rparr>"

definition ex_capped_state :: state where
  "ex_capped_state = ex_state\<lparr>tradesTable := [ex_open_trade, ex_open_trade, ex_open_trade]\<rparr>"

definition ex_signal :: TradeSignal where
  "ex_signal =
     \<lparr>sig_symbol = ''BTCUSDT'', sig_side = Buy, sig_price = 50, sig_time = 49,
      sig_strategy = ''RSI'', sig_confidence = 80, sig_indicators = [(''rsi'', Some 0)]\<rparr>"

definition ex_order :: TradeParams where
  "ex_order = \<lparr>tp_symbol = ''BTCUSDT'', tp_side = Buy, tp_size = Dec (1 / 5), tp_orderType = ''market''\<rparr>"

definition ex_running_state :: state where
  "ex_running_state = snd (startTradingForUser None 1 ex_state)"

definition ex_disabled_state :: state where
  "ex_disabled_state =
     ex_running_state\<lparr>tradingSettingsTable := [ex_settings\<lparr>ts_enabledTrading := False\<rparr>]\<rparr>"

definition ex_short_deps :: deps where
  "ex_short_deps =
     ex_deps\<lparr>gw := ex_gateway\<lparr>gw_getKlines := (\<lambda>n symbol interval limit. Inr (take 49 falling_candles))\<rparr>\<rparr>"

text \<open>
  Two further windows of 50 candles, for the strategy EMA: 48 closes of -100 followed by
  -101 and -1 (prices an exchange does not quote, but numbers the type
  \<open>HistoricalCandle\<close> admits), and 48 closes of 100 followed by 99 and 120. In both the fast average
  crosses above the slow one at the last candle; the signals below are what
  \<open>analyzeMarket\<close> returns on them.
\<close>

definition negative_candles :: "HistoricalCandle list" where
  "negative_candles =
     map (\<lambda>i. let c = (if i < 48 then - 100 else if i = 48 then - 101 else - 1)
              in \<lparr>candle_time = i, candle_open = c, candle_high = c, candle_low = c,
                  candle_close = c, candle_volume = 1\<rparr>)
         [0 ..< 50]"

definition negative_signal :: TradeSignal where
  "negative_signal =
     \<lparr>sig_symbol = ''BTCUSDT'', sig_side = Buy, sig_price = - 1, sig_time = 49,
      sig_strategy = ''EMA'', sig_confidence = - (525970 / 11021),
      sig_indicators = [(''shortEMA'', Some (- (2009 / 25))), (''longEMA'', Some (- (11021 / 121)))]\<rparr>"

definition rising_candles :: "HistoricalCandle list" where
  "rising_candles =
     map (\<lambda>i. let c = (if i < 48 then 100 else if i = 48 then 99 else 120)
              in \<lparr>candle_time = i, candle_open = c, candle_high = c, candle_low = c,
                  candle_close = c, candle_volume = 1\<rparr>)
         [0 ..< 50]"

definition rising_signal :: TradeSignal where
  "rising_signal =
     \<lparr>sig_symbol = ''BTCUSDT'', sig_side = Buy, sig_price = 120, sig_time = 49,
      sig_strategy = ''EMA'', sig_confidence = 111634 / 1231,
      sig_indicators = [(''shortEMA'', Some (2596 / 25)), (''longEMA'', Some (12310 / 121))]\<rparr>"

text \<open>
  The running account of the scenario started a second time, and then stopped.
\<close>

definition ex_restarted_state :: state where
  "ex_restarted_state = snd (startTradingForUser None 1 ex_running_state)"

definition ex_stopped_state :: state where
  "ex_stopped_state = snd (stopTradingForUser 1 ex_restarted_state)"


section \<open>Properties of the decimal arithmetic\<close>

lemma dec_exponent_bounds:
  assumes "x \<noteq> 0"
  shows "10 powi dec_exponent x \<le> \<bar>x\<bar> \<and> \<bar>x\<bar> < 10 powi (dec_exponent x + 1)"
proof (cases "1 \<le> \<bar>x\<bar>")
  case True
  define n where "n = nat \<lfloor>\<bar>x\<bar>\<rfloor>"
  have "1 \<le> \<lfloor>\<bar>x\<bar>\<rfloor>" using True by (simp add: le_floor_iff)
  then have "nat 1 \<le> nat \<lfloor>\<bar>x\<bar>\<rfloor>" by (rule nat_mono)
  then have n1: "1 \<le> n" by (simp add: n_def)
  have fb: "10 ^ (floorlog 10 n - 1) \<le> n" "n < 10 ^ floorlog 10 n"
    using floorlog_bounds[of n 10] n1 by auto
  have fl1: "1 \<le> floorlog 10 n" using n1 by (simp add: floorlog_def)
  have e: "dec_exponent x = int (floorlog 10 n) - 1"
    using True by (simp add: dec_exponent_def n_def)
  have nle: "of_nat n \<le> \<bar>x\<bar>" unfolding n_def using True by (simp add: of_nat_floor)
  have nfl: "(of_nat n :: real) = of_int \<lfloor>\<bar>x\<bar>\<rfloor>"
    unfolding n_def using \<open>1 \<le> \<lfloor>\<bar>x\<bar>\<rfloor>\<close> by simp
  have xlt: "\<bar>x\<bar> < of_nat n + 1" unfolding nfl by linarith
  have "(10::real) powi (int (floorlog 10 n) - 1) = 10 ^ (floorlog 10 n - 1)"
    using fl1 by (simp add: power_int_def nat_diff_distrib')
  also have "\<dots> = of_nat (10 ^ (floorlog 10 n - 1))" by simp
  also have "\<dots> \<le> of_nat n" using fb(1) of_nat_le_iff by blast
  finally have lo: "10 powi dec_exponent x \<le> \<bar>x\<bar>" using nle e by simp
  have "Suc n \<le> 10 ^ floorlog 10 n" using fb(2) by simp
  then have "(of_nat (Suc n) :: real) \<le> of_nat (10 ^ floorlog 10 n)" by (rule of_nat_mono)
  then have "of_nat n + 1 \<le> (of_nat (10 ^ floorlog 10 n) :: real)" by simp
  then have "\<bar>x\<bar> < 10 ^ floorlog 10 n" using xlt by simp
  then have hi: "\<bar>x\<bar> < 10 powi (dec_exponent x + 1)" by (simp add: e)
  show ?thesis using lo hi by simp
next
  case False
  define y where "y = 1 / \<bar>x\<bar>"
  have xpos: "0 < \<bar>x\<bar>" using assms by simp
  have y1: "1 < y" using False xpos by (simp add: y_def)
  define c where "c = \<lceil>y\<rceil>"
  have c2: "2 \<le> c" using y1 unfolding c_def by linarith
  define m where "m = floorlog 10 (nat (c - 1))"
  have pos: "0 < nat (c - 1)" using c2 by simp
  have fb: "10 ^ (m - 1) \<le> nat (c - 1)" "nat (c - 1) < 10 ^ m"
    using floorlog_bounds[of "nat (c - 1)" 10] pos unfolding m_def by auto
  have m1: "1 \<le> m" using pos by (simp add: m_def floorlog_def)
  have e: "dec_exponent x = - int m"
    using False by (simp add: dec_exponent_def m_def c_def y_def)
  have ylo: "of_int (c - 1) < y" unfolding c_def by linarith
  have yhi: "y \<le> of_int c" unfolding c_def by linarith
  have "(of_nat (10 ^ (m - 1)) :: real) \<le> of_nat (nat (c - 1))"
    using fb(1) of_nat_le_iff by blast
  also have "\<dots> = of_int (c - 1)" using c2 by simp
  finally have A: "(10::real) ^ (m - 1) < y" using ylo by simp
  have "c \<le> int (10 ^ m)" using fb(2) c2 by linarith
  then have "(of_int c :: real) \<le> of_int (int (10 ^ m))" using of_int_le_iff by blast
  moreover have "(of_int (int (10 ^ m)) :: real) = 10 ^ m" by simp
  ultimately have B: "y \<le> 10 ^ m" using yhi by linarith
  have ypos: "0 < y" using y1 by simp
  have xy: "\<bar>x\<bar> = 1 / y" by (simp add: y_def)
  have lo: "1 / 10 ^ m \<le> \<bar>x\<bar>" unfolding xy using B ypos
    by (simp add: frac_le)
  have hi: "\<bar>x\<bar> < 1 / 10 ^ (m - 1)" unfolding xy using A ypos
    by (simp add: frac_less2)
  have p1: "(10::real) powi (- int m) = 1 / 10 ^ m"
    by (simp add: power_int_minus_divide)
  have eq: "- int m + 1 = - int (m - 1)" using m1 by simp
  have p2: "(10::real) powi (- int m + 1) = 1 / 10 ^ (m - 1)"
    unfolding eq by (simp add: power_int_minus_divide)
  show ?thesis using lo hi p1 p2 e by simp
qed

lemma powi_exponent_le:
  assumes "(10::real) powi e \<le> a" "b < 10 powi (e' + 1)" "a \<le> b"
  shows "e \<le> e'"
proof (rule ccontr)
  assume "\<not> e \<le> e'"
  then have "e' + 1 \<le> e" by simp
  then have "(10::real) powi (e' + 1) \<le> 10 powi e"
    by (intro power_int_increasing) auto
  with assms show False by linarith
qed

lemma dec_exponent_eqI:
  assumes "10 powi e \<le> \<bar>x\<bar>" "\<bar>x\<bar> < 10 powi (e + 1)"
  shows "dec_exponent x = e"
proof -
  have "0 < (10::real) powi e" by simp
  with assms(1) have "0 < \<bar>x\<bar>" by linarith
  then have "x \<noteq> 0" by auto
  from dec_exponent_bounds[OF this] assms show ?thesis
    using powi_exponent_le[of e "\<bar>x\<bar>" "\<bar>x\<bar>" "dec_exponent x"]
          powi_exponent_le[of "dec_exponent x" "\<bar>x\<bar>" "\<bar>x\<bar>" e] by auto
qed

lemma dec_exponent_mono:
  assumes "0 < x" "x \<le> y"
  shows "dec_exponent x \<le> dec_exponent y"
proof -
  have "x \<noteq> 0" "y \<noteq> 0" using assms by auto
  from dec_exponent_bounds[OF this(1)] dec_exponent_bounds[OF this(2)] assms
  show ?thesis using powi_exponent_le[of "dec_exponent x" x y "dec_exponent y"] by auto
qed

lemma dec_exponent_minus [simp]: "dec_exponent (- x) = dec_exponent x"
  by (simp add: dec_exponent_def)

lemma round_half_up_mono: "x \<le> y \<Longrightarrow> round_half_up x \<le> round_half_up y"
  unfolding round_half_up_def by (auto intro!: floor_mono) linarith+

lemma round_half_up_of_int [simp]: "round_half_up (of_int n) = n"
  unfolding round_half_up_def by (auto; linarith)

lemma round_half_up_minus: "round_half_up (- x) = - round_half_up x"
  unfolding round_half_up_def by (auto; linarith)

lemma round_half_up_nearest:
  "of_int (round_half_up x) - 1 / 2 \<le> x \<or> x \<le> 0" "x < of_int (round_half_up x) + 1 / 2 \<or> x < 0"
  unfolding round_half_up_def by (auto; linarith)+

lemma toSignificantDigits_minus: "toSignificantDigits p (- x) = - toSignificantDigits p x"
  by (simp add: toSignificantDigits_def round_half_up_minus)

lemma toSignificantDigits_pos_bounds:
  assumes "0 < x" "1 \<le> p"
  shows "10 powi dec_exponent x \<le> toSignificantDigits p x"
    and "toSignificantDigits p x \<le> 10 powi (dec_exponent x + 1)"
proof -
  define e where "e = dec_exponent x"
  define s :: real where "s = 10 powi (int p - 1 - e)"
  have spos: "0 < s" by (simp add: s_def)
  have xb: "10 powi e \<le> x" "x < 10 powi (e + 1)"
    using dec_exponent_bounds[of x] assms(1) by (auto simp: e_def)
  have s1: "10 powi e * s = 10 ^ (p - 1)"
  proof -
    have "10 powi e * s = (10::real) powi (e + (int p - 1 - e))"
      unfolding s_def by (subst power_int_add) auto
    also have "e + (int p - 1 - e) = int (p - 1)" using assms(2) by simp
    finally show ?thesis by simp
  qed
  have s2: "10 powi (e + 1) * s = 10 ^ p"
  proof -
    have "10 powi (e + 1) * s = (10::real) powi ((e + 1) + (int p - 1 - e))"
      unfolding s_def by (subst power_int_add) auto
    also have "(e + 1) + (int p - 1 - e) = int p" by simp
    finally show ?thesis by simp
  qed
  have lo: "of_int (10 ^ (p - 1)) \<le> x * s"
    using mult_right_mono[OF xb(1), of s] spos s1 by simp
  have hi: "x * s \<le> of_int (10 ^ p)"
    using mult_right_mono[of x "10 powi (e + 1)" s] xb(2) spos s2 by simp
  have rlo: "10 ^ (p - 1) \<le> round_half_up (x * s)"
    using round_half_up_mono[OF lo] by (simp only: round_half_up_of_int)
  have rhi: "round_half_up (x * s) \<le> 10 ^ p"
    using round_half_up_mono[OF hi] by (simp only: round_half_up_of_int)
  have val: "toSignificantDigits p x = of_int (round_half_up (x * s)) / s"
    using assms(1) by (simp add: toSignificantDigits_def s_def e_def)
  have rlo': "(10::real) ^ (p - 1) \<le> of_int (round_half_up (x * s))"
    using of_int_le_iff[of "10 ^ (p - 1)" "round_half_up (x * s)", where ?'a = real] rlo by simp
  have rhi': "of_int (round_half_up (x * s)) \<le> (10::real) ^ p"
    using of_int_le_iff[of "round_half_up (x * s)" "10 ^ p", where ?'a = real] rhi by simp
  have "10 powi e = 10 ^ (p - 1) / s" using s1 spos by (simp add: field_simps)
  also have "\<dots> \<le> of_int (round_half_up (x * s)) / s"
    using rlo' spos by (simp add: divide_right_mono)
  finally show "10 powi dec_exponent x \<le> toSignificantDigits p x"
    by (simp add: val e_def)
  have "of_int (round_half_up (x * s)) / s \<le> 10 ^ p / s"
    using rhi' spos by (simp add: divide_right_mono)
  also have "\<dots> = 10 powi (e + 1)" using s2 spos by (simp add: field_simps)
  finally show "toSignificantDigits p x \<le> 10 powi (dec_exponent x + 1)"
    by (simp add: val e_def)
qed

lemma toSignificantDigits_pos:
  assumes "0 < x" "1 \<le> p"
  shows "0 < toSignificantDigits p x"
proof -
  have "0 < (10::real) powi dec_exponent x" by simp
  with toSignificantDigits_pos_bounds(1)[OF assms] show ?thesis by linarith
qed

lemma toSignificantDigits_mono_pos:
  assumes "0 < x" "x \<le> y" "1 \<le> p"
  shows "toSignificantDigits p x \<le> toSignificantDigits p y"
proof (cases "dec_exponent x = dec_exponent y")
  case True
  have ypos: "0 < y" using assms by simp
  define s :: real where "s = 10 powi (int p - 1 - dec_exponent y)"
  have spos: "0 < s" by (simp add: s_def)
  have "x * s \<le> y * s" using assms(2) spos by simp
  then have "round_half_up (x * s) \<le> round_half_up (y * s)" by (rule round_half_up_mono)
  then have "(of_int (round_half_up (x * s)) :: real) / s \<le> of_int (round_half_up (y * s)) / s"
    using spos by (intro divide_right_mono) auto
  then show ?thesis using assms(1) ypos True by (simp add: toSignificantDigits_def s_def)
next
  case False
  have ypos: "0 < y" using assms by simp
  have "dec_exponent x \<le> dec_exponent y" using dec_exponent_mono assms by blast
  with False have "dec_exponent x + 1 \<le> dec_exponent y" by simp
  then have "(10::real) powi (dec_exponent x + 1) \<le> 10 powi dec_exponent y"
    by (intro power_int_increasing) auto
  with toSignificantDigits_pos_bounds(2)[OF assms(1,3)] toSignificantDigits_pos_bounds(1)[OF ypos assms(3)]
  show ?thesis by linarith
qed

lemma toSignificantDigits_zero [simp]: "toSignificantDigits p 0 = 0"
  by (simp add: toSignificantDigits_def)

lemma toSignificantDigits_mono:
  assumes "x \<le> y" "1 \<le> p"
  shows "toSignificantDigits p x \<le> toSignificantDigits p y"
proof -
  consider "0 < x" | "x \<le> 0" "0 \<le> y" | "y < 0" using assms(1) by linarith
  then show ?thesis
  proof cases
    case 1
    then show ?thesis using toSignificantDigits_mono_pos assms by blast
  next
    case 2
    have a: "toSignificantDigits p x \<le> 0"
    proof (cases "x = 0")
      case True then show ?thesis by simp
    next
      case False
      then have "0 < - x" using 2 by simp
      from toSignificantDigits_pos[OF this assms(2)] show ?thesis
        by (simp add: toSignificantDigits_minus)
    qed
    have b: "0 \<le> toSignificantDigits p y"
    proof (cases "y = 0")
      case True then show ?thesis by simp
    next
      case False
      then have "0 < y" using 2 by simp
      from toSignificantDigits_pos[OF this assms(2)] show ?thesis by simp
    qed
    from a b show ?thesis by linarith
  next
    case 3
    then have "0 < - y" "- y \<le> - x" using assms by auto
    from toSignificantDigits_mono_pos[OF this assms(2)] show ?thesis
      by (simp add: toSignificantDigits_minus)
  qed
qed

lemma toSignificantDigits_nonneg:
  assumes "0 \<le> x" "1 \<le> p"
  shows "0 \<le> toSignificantDigits p x"
  using toSignificantDigits_mono[OF assms] by simp

lemma toSignificantDigits_eval:
  assumes "10 powi e \<le> \<bar>x\<bar>" "\<bar>x\<bar> < 10 powi (e + 1)"
  shows "toSignificantDigits p x
           = of_int (round_half_up (x * 10 powi (int p - 1 - e))) / 10 powi (int p - 1 - e)"
proof -
  have "0 < (10::real) powi e" by simp
  with assms(1) have "0 < \<bar>x\<bar>" by linarith
  then have "x \<noteq> 0" by auto
  then show ?thesis by (simp add: toSignificantDigits_def dec_exponent_eqI[OF assms])
qed


lemma toDecimalPlaces_grid_ge:
  assumes "of_int k / 10 ^ dp \<le> x"
  shows "of_int k / 10 ^ dp \<le> toDecimalPlaces dp x"
proof -
  have "of_int k \<le> x * 10 ^ dp" using assms by (simp add: field_simps)
  from round_half_up_mono[OF this] have "k \<le> round_half_up (x * 10 ^ dp)" by simp
  then show ?thesis unfolding toDecimalPlaces_def
    by (intro divide_right_mono) auto
qed

lemma toDecimalPlaces5_min: "1 / 100000 \<le> q \<Longrightarrow> 1 / 100000 \<le> toDecimalPlaces 5 q"
  using toDecimalPlaces_grid_ge[of 1 5 q] by simp

lemma toSignificantDigits_rel_err:
  assumes "0 \<le> x" "1 \<le> p"
  shows "\<bar>toSignificantDigits p x - x\<bar> \<le> x * (5 / 10 ^ p)"
proof (cases "x = 0")
  case True then show ?thesis by simp
next
  case False
  then have xpos: "0 < x" using assms by simp
  define e where "e = dec_exponent x"
  define s :: real where "s = 10 powi (int p - 1 - e)"
  have spos: "0 < s" by (simp add: s_def)
  have xb: "10 powi e \<le> x"
    using dec_exponent_bounds[of x] xpos by (auto simp: e_def)
  have val: "toSignificantDigits p x = of_int (round_half_up (x * s)) / s"
    using xpos by (simp add: toSignificantDigits_def s_def e_def)
  have xs: "0 < x * s" using xpos spos by simp
  have near: "\<bar>of_int (round_half_up (x * s)) - x * s\<bar> \<le> 1 / 2"
    using round_half_up_nearest[of "x * s"] xs by linarith
  have "\<bar>toSignificantDigits p x - x\<bar> = \<bar>of_int (round_half_up (x * s)) - x * s\<bar> / s"
    unfolding val using spos by (simp add: field_simps abs_if)
  also have "\<dots> \<le> (1 / 2) / s" using spos by (intro divide_right_mono[OF near]) simp
  finally have err: "\<bar>toSignificantDigits p x - x\<bar> \<le> 1 / (2 * s)" by simp
  have "10 powi e * s = (10::real) powi (e + (int p - 1 - e))"
    unfolding s_def by (subst power_int_add) auto
  also have "e + (int p - 1 - e) = int (p - 1)" using assms(2) by simp
  finally have s1: "10 powi e * s = 10 ^ (p - 1)" by simp
  have "10 ^ p = (10::real) * 10 ^ (p - 1)" using assms(2) by (cases p) auto
  then have tenp: "(10::real) ^ p = 10 * (10 powi e * s)" using s1 by simp
  have "1 / (2 * s) = 10 powi e * (5 / 10 ^ p)"
    unfolding tenp using spos by (simp add: field_simps)
  also have "\<dots> \<le> x * (5 / 10 ^ p)" by (intro mult_right_mono[OF xb]) simp
  finally show ?thesis using err by linarith
qed

lemma toSignificantDigits_20_bounds:
  assumes "0 \<le> x"
  shows "x * (1 - 5 / 10 ^ 20) \<le> toSignificantDigits dec_precision x"
    and "toSignificantDigits dec_precision x \<le> x * (1 + 5 / 10 ^ 20)"
proof -
  have "\<bar>toSignificantDigits 20 x - x\<bar> \<le> x * (5 / 10 ^ 20)"
    using toSignificantDigits_rel_err[OF assms, of 20] by simp
  then have "x - x * (5 / 10 ^ 20) \<le> toSignificantDigits 20 x"
       and "toSignificantDigits 20 x \<le> x + x * (5 / 10 ^ 20)" by linarith+
  then show "x * (1 - 5 / 10 ^ 20) \<le> toSignificantDigits dec_precision x"
    and "toSignificantDigits dec_precision x \<le> x * (1 + 5 / 10 ^ 20)"
    by (simp_all add: dec_precision_def algebra_simps)
qed

lemma toDecimalPlaces_nonneg_eq:
  "0 \<le> q \<Longrightarrow> toDecimalPlaces 5 q = of_int \<lfloor>q * 100000 + 1 / 2\<rfloor> / 100000"
  by (simp add: toDecimalPlaces_def round_half_up_def)

lemma round_half_up_numeral [simp]: "round_half_up (numeral n) = numeral n"
  using round_half_up_of_int[of "numeral n"] by simp

subsection \<open>Position sizing\<close>

lemma calculatePositionSize_finite:
  "price \<noteq> 0 \<Longrightarrow>
   calculatePositionSize availableBalance riskPercentage price sd =
     Dec (if positionSizeQuotient availableBalance riskPercentage price < 1 / 100000 then 0
          else toDecimalPlaces 5 (positionSizeQuotient availableBalance riskPercentage price))"
  by (simp add: calculatePositionSize_def Let_def)


lemma positionSizeQuotient_accuracy:
  assumes "0 \<le> b" "0 \<le> r" "0 < p"
  shows "\<bar>positionSizeQuotient b r p - b * (r / 100) / p\<bar> \<le> b * (r / 100) / p / 10 ^ 18"
proof -
  define u :: real where "u = 1 - 5 / 10 ^ 20"
  define v :: real where "v = 1 + 5 / 10 ^ 20"
  have u0: "0 \<le> u" and v0: "0 \<le> v" by (simp_all add: u_def v_def)
  define a where "a = dec_dividedBy r 100"
  define ra where "ra = dec_times b a"
  define q where "q = dec_dividedBy ra p"
  define E where "E = b * (r / 100) / p"
  have p20: "1 \<le> dec_precision" by (simp add: dec_precision_def)
  have r0: "0 \<le> r / 100" using assms(2) by simp
  have a0: "0 \<le> a" unfolding a_def dec_dividedBy_def
    by (rule toSignificantDigits_nonneg[OF r0 p20])
  have ab: "r / 100 * u \<le> a" "a \<le> r / 100 * v"
    using toSignificantDigits_20_bounds[OF r0] by (simp_all add: a_def dec_dividedBy_def u_def v_def)
  have ba0: "0 \<le> b * a" using assms(1) a0 by simp
  have ra0: "0 \<le> ra" unfolding ra_def dec_times_def
    by (rule toSignificantDigits_nonneg[OF ba0 p20])
  have rab: "b * a * u \<le> ra" "ra \<le> b * a * v"
    using toSignificantDigits_20_bounds[OF ba0] by (simp_all add: ra_def dec_times_def u_def v_def)
  have rp0: "0 \<le> ra / p" using ra0 assms(3) by simp
  have qb: "ra / p * u \<le> q" "q \<le> ra / p * v"
    using toSignificantDigits_20_bounds[OF rp0] by (simp_all add: q_def dec_dividedBy_def u_def v_def)
  have E0: "0 \<le> E" unfolding E_def using assms by simp
  have l1: "b * (r / 100 * u) \<le> b * a" using ab(1) assms(1) by (rule mult_left_mono)
  have l2: "b * (r / 100 * u) * u \<le> b * a * u" using l1 u0 by (rule mult_right_mono)
  have l3: "b * (r / 100 * u) * u \<le> ra" using l2 rab(1) by linarith
  have l4: "b * (r / 100 * u) * u / p \<le> ra / p" using assms(3) by (intro divide_right_mono[OF l3]) simp
  have l5: "b * (r / 100 * u) * u / p * u \<le> ra / p * u" using l4 u0 by (rule mult_right_mono)
  have lo: "E * (u * u * u) \<le> q" using l5 qb(1) by (simp add: E_def algebra_simps)
  have h1: "b * a \<le> b * (r / 100 * v)" using ab(2) assms(1) by (rule mult_left_mono)
  have h2: "b * a * v \<le> b * (r / 100 * v) * v" using h1 v0 by (rule mult_right_mono)
  have h3: "ra \<le> b * (r / 100 * v) * v" using h2 rab(2) by linarith
  have h4: "ra / p \<le> b * (r / 100 * v) * v / p" using assms(3) by (intro divide_right_mono[OF h3]) simp
  have h5: "ra / p * v \<le> b * (r / 100 * v) * v / p * v" using h4 v0 by (rule mult_right_mono)
  have hi: "q \<le> E * (v * v * v)" using h5 qb(2) by (simp add: E_def algebra_simps)
  have uu: "1 - 1 / 10 ^ 18 \<le> u * u * u" by (simp add: u_def)
  have vv: "v * v * v \<le> 1 + 1 / 10 ^ 18" by (simp add: v_def)
  have "E * (1 - 1 / 10 ^ 18) \<le> E * (u * u * u)" using uu E0 by (rule mult_left_mono)
  moreover have "E * (v * v * v) \<le> E * (1 + 1 / 10 ^ 18)" using vv E0 by (rule mult_left_mono)
  ultimately have "E - E / 10 ^ 18 \<le> q" "q \<le> E + E / 10 ^ 18"
    using lo hi by (simp_all add: algebra_simps)
  then have "\<bar>q - E\<bar> \<le> E / 10 ^ 18" by linarith
  then show ?thesis
    by (simp add: q_def ra_def a_def E_def positionSizeQuotient_def)
qed

lemma positionSizeQuotient_nonneg:
  assumes "0 \<le> b" "0 \<le> r" "0 < p"
  shows "0 \<le> positionSizeQuotient b r p"
proof -
  have p20: "1 \<le> dec_precision" by (simp add: dec_precision_def)
  have "0 \<le> dec_dividedBy r 100" unfolding dec_dividedBy_def
    using assms(2) by (intro toSignificantDigits_nonneg[OF _ p20]) simp
  then have "0 \<le> dec_times b (dec_dividedBy r 100)" unfolding dec_times_def
    using assms(1) by (intro toSignificantDigits_nonneg[OF _ p20]) simp
  then show ?thesis unfolding positionSizeQuotient_def Let_def dec_dividedBy_def[of _ p]
    using assms(3) by (intro toSignificantDigits_nonneg[OF _ p20]) simp
qed

lemma dec_dividedBy_100_100: "dec_dividedBy 100 100 = 1"
  using toSignificantDigits_eval[of 0 1 dec_precision]
  by (simp add: dec_dividedBy_def dec_precision_def)

lemma dec_times_2_1: "dec_times 2 1 = 2"
  using toSignificantDigits_eval[of 0 2 dec_precision]
  by (simp add: dec_times_def dec_precision_def)

lemma dec_dividedBy_2_3: "dec_dividedBy 2 3 = 66666666666666666667 / 100000000000000000000"
  using toSignificantDigits_eval[of "-1" "2/3" dec_precision]
  by (simp add: dec_dividedBy_def dec_precision_def round_half_up_def)

lemma dec_dividedBy_1_100: "dec_dividedBy 1 100 = 1 / 100"
  using toSignificantDigits_eval[of "-2" "1/100" dec_precision]
  by (simp add: dec_dividedBy_def dec_precision_def)

lemma dec_times_1000_cent: "dec_times 1000 (1 / 100) = 10"
  using toSignificantDigits_eval[of 1 10 dec_precision]
  by (simp add: dec_times_def dec_precision_def)

lemma dec_dividedBy_10_30000:
  "dec_dividedBy 10 30000 = 33333333333333333333 / 100000000000000000000000"
  using toSignificantDigits_eval[of "-4" "1/3000" dec_precision]
  by (simp add: dec_dividedBy_def dec_precision_def round_half_up_def)




lemma calculatePositionSize_1000_1_30000:
  "calculatePositionSize 1000 1 30000 sd = Dec (33 / 100000)"
  by (simp add: calculatePositionSize_def positionSizeQuotient_def Let_def dec_dividedBy_1_100
      dec_times_1000_cent dec_dividedBy_10_30000 toDecimalPlaces_def round_half_up_def)


text \<open>
  C4 (as stated): the size is the quotient truncated to 5 decimal places. At
  \<open>availableBalance = 2\<close>, \<open>riskPct = 100\<close>, \<open>price = 3\<close> the quotient is 0.666..., the
  truncation is 0.66666 and the code returns 0.66667.
\<close>

theorem C4_truncation_counterexample:
  "calculatePositionSize 2 100 3 Buy = Dec (66667 / 100000)
   \<and> calculatePositionSize 2 100 3 Buy \<noteq> Dec (of_int \<lfloor>2 * (100 / 100) / 3 * (100000::real)\<rfloor> / 100000)"
  by (simp add: calculatePositionSize_def positionSizeQuotient_def Let_def dec_dividedBy_100_100
      dec_times_2_1 dec_dividedBy_2_3 toDecimalPlaces_def round_half_up_def)

text \<open>
  C4 (amended): for \<open>availableBalance \<ge> 0\<close>, \<open>riskPct\<close> in [0,100] and \<open>price > 0\<close>, the
  quotient \<open>q\<close> the code computes agrees with
  \<open>availableBalance * (riskPct / 100) / price\<close> to 18 significant digits; the result is
  exactly 0 if \<open>q < 0.00001\<close> and otherwise \<open>q\<close> rounded to the nearest multiple of
  0.00001, a tie rounded up (not truncated); the result is never negative.
\<close>

theorem C4_position_size_rounds_half_up:
  assumes "0 \<le> availableBalance" "0 \<le> riskPct" "riskPct \<le> 100" "0 < price"
  shows "\<bar>positionSizeQuotient availableBalance riskPct price
            - availableBalance * (riskPct / 100) / price\<bar>
           \<le> availableBalance * (riskPct / 100) / price / 10 ^ 18
         \<and> calculatePositionSize availableBalance riskPct price sd =
             Dec (if positionSizeQuotient availableBalance riskPct price < 1 / 100000 then 0
                  else of_int \<lfloor>positionSizeQuotient availableBalance riskPct price * 100000 + 1 / 2\<rfloor>
                         / 100000)
         \<and> (\<exists>s. calculatePositionSize availableBalance riskPct price sd = Dec s \<and> 0 \<le> s)"
proof -
  let ?q = "positionSizeQuotient availableBalance riskPct price"
  have pn: "price \<noteq> 0" using assms(4) by simp
  have q0: "0 \<le> ?q" by (rule positionSizeQuotient_nonneg[OF assms(1,2,4)])
  have acc: "\<bar>?q - availableBalance * (riskPct / 100) / price\<bar>
               \<le> availableBalance * (riskPct / 100) / price / 10 ^ 18"
    by (rule positionSizeQuotient_accuracy[OF assms(1,2,4)])
  have val: "calculatePositionSize availableBalance riskPct price sd =
               Dec (if ?q < 1 / 100000 then 0 else of_int \<lfloor>?q * 100000 + 1 / 2\<rfloor> / 100000)"
    unfolding calculatePositionSize_finite[OF pn] using toDecimalPlaces_nonneg_eq[OF q0] by simp
  have "0 \<le> (if ?q < 1 / 100000 then 0 else toDecimalPlaces 5 ?q)"
    using toDecimalPlaces5_min[of ?q] by auto
  then have nn: "\<exists>s. calculatePositionSize availableBalance riskPct price sd = Dec s \<and> 0 \<le> s"
    unfolding calculatePositionSize_finite[OF pn] by blast
  show ?thesis using acc val nn by blast
qed

theorem C4_position_size_rounds_half_up_witness:
  "(0::real) \<le> 1000 \<and> (0::real) \<le> 1 \<and> (1::real) \<le> 100 \<and> (0::real) < 30000
   \<and> calculatePositionSize 1000 1 30000 Buy = Dec (33 / 100000)
   \<and> calculatePositionSize 1000 1 30000 Buy =
        Dec (if positionSizeQuotient 1000 1 30000 < 1 / 100000 then 0
             else of_int \<lfloor>positionSizeQuotient 1000 1 30000 * 100000 + 1 / 2\<rfloor> / 100000)"
  using C4_position_size_rounds_half_up[of 1000 1 30000 Buy]
  by (simp add: calculatePositionSize_1000_1_30000)




section \<open>Properties of the double arithmetic\<close>

lemma binary_exponent_bounds:
  assumes "x \<noteq> 0"
  shows "2 powi binary_exponent x \<le> \<bar>x\<bar> \<and> \<bar>x\<bar> < 2 powi (binary_exponent x + 1)"
proof (cases "1 \<le> \<bar>x\<bar>")
  case True
  define n where "n = nat \<lfloor>\<bar>x\<bar>\<rfloor>"
  have "1 \<le> \<lfloor>\<bar>x\<bar>\<rfloor>" using True by (simp add: le_floor_iff)
  then have "nat 1 \<le> nat \<lfloor>\<bar>x\<bar>\<rfloor>" by (rule nat_mono)
  then have n1: "1 \<le> n" by (simp add: n_def)
  have fb: "2 ^ (floorlog 2 n - 1) \<le> n" "n < 2 ^ floorlog 2 n"
    using floorlog_bounds[of n 2] n1 by auto
  have fl1: "1 \<le> floorlog 2 n" using n1 by (simp add: floorlog_def)
  have e: "binary_exponent x = int (floorlog 2 n) - 1"
    using True by (simp add: binary_exponent_def n_def)
  have nle: "of_nat n \<le> \<bar>x\<bar>" unfolding n_def using True by (simp add: of_nat_floor)
  have nfl: "(of_nat n :: real) = of_int \<lfloor>\<bar>x\<bar>\<rfloor>"
    unfolding n_def using \<open>1 \<le> \<lfloor>\<bar>x\<bar>\<rfloor>\<close> by simp
  have xlt: "\<bar>x\<bar> < of_nat n + 1" unfolding nfl by linarith
  have "(2::real) powi (int (floorlog 2 n) - 1) = 2 ^ (floorlog 2 n - 1)"
    using fl1 by (simp add: power_int_def nat_diff_distrib')
  also have "\<dots> = of_nat (2 ^ (floorlog 2 n - 1))" by simp
  also have "\<dots> \<le> of_nat n" using fb(1) of_nat_le_iff by blast
  finally have lo: "2 powi binary_exponent x \<le> \<bar>x\<bar>" using nle e by simp
  have "Suc n \<le> 2 ^ floorlog 2 n" using fb(2) by simp
  then have "(of_nat (Suc n) :: real) \<le> of_nat (2 ^ floorlog 2 n)" by (rule of_nat_mono)
  then have "of_nat n + 1 \<le> (of_nat (2 ^ floorlog 2 n) :: real)" by simp
  then have "\<bar>x\<bar> < 2 ^ floorlog 2 n" using xlt by simp
  then have hi: "\<bar>x\<bar> < 2 powi (binary_exponent x + 1)" by (simp add: e)
  show ?thesis using lo hi by simp
next
  case False
  define y where "y = 1 / \<bar>x\<bar>"
  have xpos: "0 < \<bar>x\<bar>" using assms by simp
  have y1: "1 < y" using False xpos by (simp add: y_def)
  define c where "c = \<lceil>y\<rceil>"
  have c2: "2 \<le> c" using y1 unfolding c_def by linarith
  define m where "m = floorlog 2 (nat (c - 1))"
  have pos: "0 < nat (c - 1)" using c2 by simp
  have fb: "2 ^ (m - 1) \<le> nat (c - 1)" "nat (c - 1) < 2 ^ m"
    using floorlog_bounds[of "nat (c - 1)" 2] pos unfolding m_def by auto
  have m1: "1 \<le> m" using pos by (simp add: m_def floorlog_def)
  have e: "binary_exponent x = - int m"
    using False by (simp add: binary_exponent_def m_def c_def y_def)
  have ylo: "of_int (c - 1) < y" unfolding c_def by linarith
  have yhi: "y \<le> of_int c" unfolding c_def by linarith
  have "(of_nat (2 ^ (m - 1)) :: real) \<le> of_nat (nat (c - 1))"
    using fb(1) of_nat_le_iff by blast
  also have "\<dots> = of_int (c - 1)" using c2 by simp
  finally have A: "(2::real) ^ (m - 1) < y" using ylo by simp
  have "c \<le> int (2 ^ m)" using fb(2) c2 by linarith
  then have "(of_int c :: real) \<le> of_int (int (2 ^ m))" using of_int_le_iff by blast
  moreover have "(of_int (int (2 ^ m)) :: real) = 2 ^ m" by simp
  ultimately have B: "y \<le> 2 ^ m" using yhi by linarith
  have ypos: "0 < y" using y1 by simp
  have xy: "\<bar>x\<bar> = 1 / y" by (simp add: y_def)
  have lo: "1 / 2 ^ m \<le> \<bar>x\<bar>" unfolding xy using B ypos
    by (simp add: frac_le)
  have hi: "\<bar>x\<bar> < 1 / 2 ^ (m - 1)" unfolding xy using A ypos
    by (simp add: frac_less2)
  have p1: "(2::real) powi (- int m) = 1 / 2 ^ m"
    by (simp add: power_int_minus_divide)
  have eq: "- int m + 1 = - int (m - 1)" using m1 by simp
  have p2: "(2::real) powi (- int m + 1) = 1 / 2 ^ (m - 1)"
    unfolding eq by (simp add: power_int_minus_divide)
  show ?thesis using lo hi p1 p2 e by simp
qed

lemma powi2_exponent_le:
  assumes "(2::real) powi e \<le> a" "b < 2 powi (e' + 1)" "a \<le> b"
  shows "e \<le> e'"
proof (rule ccontr)
  assume "\<not> e \<le> e'"
  then have "e' + 1 \<le> e" by simp
  then have "(2::real) powi (e' + 1) \<le> 2 powi e"
    by (intro power_int_increasing) auto
  with assms show False by linarith
qed

lemma binary_exponent_eqI:
  assumes "2 powi e \<le> \<bar>x\<bar>" "\<bar>x\<bar> < 2 powi (e + 1)"
  shows "binary_exponent x = e"
proof -
  have "0 < (2::real) powi e" by simp
  with assms(1) have "0 < \<bar>x\<bar>" by linarith
  then have "x \<noteq> 0" by auto
  from binary_exponent_bounds[OF this] assms show ?thesis
    using powi2_exponent_le[of e "\<bar>x\<bar>" "\<bar>x\<bar>" "binary_exponent x"]
          powi2_exponent_le[of "binary_exponent x" "\<bar>x\<bar>" "\<bar>x\<bar>" e] by auto
qed

lemma binary_exponent_minus [simp]: "binary_exponent (- x) = binary_exponent x"
  by (simp add: binary_exponent_def)

lemma round_half_even_ge_floor: "\<lfloor>x\<rfloor> \<le> round_half_even x"
  by (simp add: round_half_even_def Let_def)

lemma round_half_even_of_int [simp]: "round_half_even (of_int n) = n"
  by (simp add: round_half_even_def Let_def)

lemma round_half_even_minus: "round_half_even (- x) = - round_half_even x"
proof (cases "x = of_int \<lfloor>x\<rfloor>")
  case True
  then obtain n :: int where "x = of_int n" by blast
  then have "- x = of_int (- n)" by simp
  then show ?thesis using \<open>x = of_int n\<close> by (simp only: round_half_even_of_int)
next
  case False
  then have lt: "of_int \<lfloor>x\<rfloor> < x" using of_int_floor_le[of x] by linarith
  have up: "x < of_int \<lfloor>x\<rfloor> + 1" by linarith
  have a: "of_int (- \<lfloor>x\<rfloor> - 1) \<le> - x"
    unfolding of_int_diff of_int_minus of_int_1 using up by linarith
  have b: "- x < of_int (- \<lfloor>x\<rfloor> - 1) + 1"
    unfolding of_int_diff of_int_minus of_int_1 using lt by linarith
  have fl: "\<lfloor>- x\<rfloor> = - \<lfloor>x\<rfloor> - 1" using a b by (rule floor_unique)
  show ?thesis
    unfolding round_half_even_def Let_def fl using lt by (auto; linarith?)
qed

lemma round_double_zero [simp]: "round_double 0 = 0"
  by (simp add: round_double_def)

lemma round_double_minus: "round_double (- x) = - round_double x"
  by (simp add: round_double_def Let_def round_half_even_minus)


lemma powi2_grid:
  fixes k m :: int
  assumes "k \<le> m"
  shows "of_int n / (2::real) powi k = of_int (n * 2 ^ nat (m - k)) * 2 powi (- m)"
proof -
  have "(2::real) powi (m - k) * 2 powi (- m) = 2 powi ((m - k) + (- m))"
    by (rule power_int_add[symmetric]) simp
  also have "(m - k) + (- m) = - k" by simp
  finally have "(2::real) powi (m - k) * 2 powi (- m) = 1 / 2 powi k"
    by (simp add: power_int_minus field_simps)
  moreover have "(2::real) powi (m - k) = of_int (2 ^ nat (m - k))"
    using assms by (simp add: power_int_def)
  ultimately show ?thesis by (simp add: field_simps)
qed

lemma powi2_cancel:
  fixes m :: int
  assumes "2 powi (- m) \<le> (x::real)"
  shows "1 \<le> x * 2 powi m"
proof -
  have "2 powi (- m) * 2 powi m \<le> x * 2 powi m"
    using assms by (intro mult_right_mono) auto
  moreover have "(2::real) powi (- m) * 2 powi m = 2 powi (- m + m)"
    by (rule power_int_add[symmetric]) simp
  ultimately show ?thesis by simp
qed

lemma round_double_grid: "\<exists>N::int. round_double x = of_int N * MIN_VALUE"
proof (cases "x = 0")
  case True
  have "round_double x = of_int 0 * MIN_VALUE" using True by simp
  then show ?thesis by blast
next
  case False
  define k where "k = 52 - max (binary_exponent x) (- 1022)"
  define n where "n = round_half_even (x * 2 powi k)"
  have val: "round_double x = of_int n / 2 powi k"
    using False by (simp add: round_double_def Let_def k_def n_def)
  have k: "k \<le> 1074" by (simp add: k_def)
  have "round_double x = of_int (n * 2 ^ nat (1074 - k)) * MIN_VALUE"
    unfolding val MIN_VALUE_def by (rule powi2_grid[OF k])
  then show ?thesis by blast
qed

lemma round_double_pos:
  assumes "MIN_VALUE \<le> x"
  shows "0 < round_double x"
proof -
  have q: "0 < MIN_VALUE" unfolding MIN_VALUE_def by (rule zero_less_power_int) simp
  have xpos: "0 < x" using assms q by linarith
  then have x0: "x \<noteq> 0" by simp
  define k where "k = 52 - max (binary_exponent x) (- 1022)"
  have kpos: "0 < (2::real) powi k" by simp
  have one: "1 \<le> x * 2 powi k"
  proof (cases "- 1022 \<le> binary_exponent x")
    case True
    then have kk: "k = 52 - binary_exponent x" by (simp add: k_def)
    have "2 powi binary_exponent x \<le> x" using binary_exponent_bounds[OF x0] xpos by simp
    then have "2 powi binary_exponent x * 2 powi k \<le> x * 2 powi k"
      using kpos by (simp add: mult_right_mono)
    moreover have "(2::real) powi binary_exponent x * 2 powi k = 2 powi (binary_exponent x + k)"
      by (subst power_int_add) auto
    moreover have "binary_exponent x + k = 52" by (simp add: kk)
    moreover have "(1::real) \<le> 2 powi 52" by (rule one_le_power_int) auto
    ultimately show ?thesis by simp
  next
    case False
    then have kk: "k = 1074" by (simp add: k_def)
    show ?thesis unfolding kk by (rule powi2_cancel) (use assms in \<open>simp only: MIN_VALUE_def\<close>)
  qed
  then have "1 \<le> \<lfloor>x * 2 powi k\<rfloor>" by (simp add: le_floor_iff)
  then have "1 \<le> round_half_even (x * 2 powi k)"
    using round_half_even_ge_floor[of "x * 2 powi k"] by linarith
  then have "(0::real) < of_int (round_half_even (x * 2 powi k))" by simp
  then have "(0::real) < of_int (round_half_even (x * 2 powi k)) / 2 powi k"
    using kpos by simp
  then show ?thesis using x0 by (simp add: round_double_def Let_def k_def)
qed

lemma double_gap:
  assumes "a \<in> range round_double" "b \<in> range round_double" "a < b"
  shows "MIN_VALUE \<le> b - a"
proof -
  obtain u v where uv: "a = round_double u" "b = round_double v" using assms by auto
  obtain M :: int where M: "a = of_int M * MIN_VALUE"
    using round_double_grid[of u] uv by auto
  obtain N :: int where N: "b = of_int N * MIN_VALUE"
    using round_double_grid[of v] uv by auto
  have q: "0 < MIN_VALUE" unfolding MIN_VALUE_def by (rule zero_less_power_int) simp
  have "of_int M * MIN_VALUE < of_int N * MIN_VALUE"
    using assms(3) M N by simp
  then have "(of_int M :: real) < of_int N" using q by (simp only: mult_less_cancel_right_pos)
  then have "M < N" by simp
  then have "1 \<le> N - M" by simp
  then have "(1::real) \<le> of_int (N - M)" using of_int_le_iff[of 1 "N - M", where ?'a = real] by simp
  then have "1 * MIN_VALUE \<le> of_int (N - M) * MIN_VALUE"
    using q by (intro mult_right_mono) auto
  then show ?thesis unfolding M N by (simp add: algebra_simps)
qed

lemma number_minus_sign:
  assumes "a \<in> range round_double" "b \<in> range round_double"
  shows "(number_minus b a \<le> 0) = (b \<le> a)"
proof -
  consider "b = a" | "b < a" | "a < b" by linarith
  then show ?thesis
  proof cases
    case 1
    then show ?thesis by (simp add: number_minus_def)
  next
    case 2
    from double_gap[OF assms(2,1) 2] have "0 < round_double (a - b)" by (rule round_double_pos)
    moreover have "round_double (b - a) = - round_double (a - b)"
      using round_double_minus[of "a - b"] by simp
    ultimately show ?thesis using 2 by (simp add: number_minus_def)
  next
    case 3
    from double_gap[OF assms 3] have "0 < round_double (b - a)" by (rule round_double_pos)
    then show ?thesis using 3 by (simp add: number_minus_def)
  qed
qed

lemma round_double_eval:
  assumes "2 powi e \<le> \<bar>x\<bar>" "\<bar>x\<bar> < 2 powi (e + 1)" "- 1022 \<le> e"
  shows "round_double x = of_int (round_half_even (x * 2 powi (52 - e))) / 2 powi (52 - e)"
proof -
  have "0 < (2::real) powi e" by simp
  with assms(1) have "0 < \<bar>x\<bar>" by linarith
  then have "x \<noteq> 0" by auto
  moreover have "max e (- 1022) = e" using assms(3) by simp
  ultimately show ?thesis
    by (simp add: round_double_def Let_def binary_exponent_eqI[OF assms(1,2)])
qed

subsection \<open>The doubles of the scenario\<close>

lemma double_3_10: "round_double (3 / 10) = 5404319552844595 / 18014398509481984"
  using round_double_eval[of "- 2" "3 / 10"]
  by (simp add: round_half_even_def Let_def power_int_minus)

lemma double_3_10_again: "round_double (5404319552844595 / 18014398509481984) = 5404319552844595 / 18014398509481984"
  using round_double_eval[of "- 2" "5404319552844595 / 18014398509481984"]
  by (simp add: round_half_even_def Let_def power_int_minus)



lemma double_1_4: "round_double (1 / 4) = 1 / 4"
  using round_double_eval[of "- 2" "1 / 4"]
  by (simp add: round_half_even_def Let_def power_int_minus)

lemma double_1_5: "round_double (1 / 5) = 3602879701896397 / 18014398509481984"
  using round_double_eval[of "- 3" "1 / 5"]
  by (simp add: round_half_even_def Let_def power_int_minus)

lemma double_1_5_again: "round_double (3602879701896397 / 18014398509481984) = 3602879701896397 / 18014398509481984"
  using round_double_eval[of "- 3" "3602879701896397 / 18014398509481984"]
  by (simp add: round_half_even_def Let_def power_int_minus)

lemma double_3_20: "round_double (3 / 20) = 5404319552844595 / 36028797018963968"
  using round_double_eval[of "- 3" "3 / 20"]
  by (simp add: round_half_even_def Let_def power_int_minus)

lemma double_3_20_again: "round_double (5404319552844595 / 36028797018963968) = 5404319552844595 / 36028797018963968"
  using round_double_eval[of "- 3" "5404319552844595 / 36028797018963968"]
  by (simp add: round_half_even_def Let_def power_int_minus)

lemma double_1_10: "round_double (1 / 10) = 3602879701896397 / 36028797018963968"
  using round_double_eval[of "- 4" "1 / 10"]
  by (simp add: round_half_even_def Let_def power_int_minus)

lemma double_1_10_again: "round_double (3602879701896397 / 36028797018963968) = 3602879701896397 / 36028797018963968"
  using round_double_eval[of "- 4" "3602879701896397 / 36028797018963968"]
  by (simp add: round_half_even_def Let_def power_int_minus)










section \<open>Properties of the pair ranking\<close>

lemma mset_insert_sorted: "mset (insert_sorted c x ys) = add_mset x (mset ys)"
  by (induction ys) simp_all

lemma mset_array_sort: "mset (array_sort c xs) = mset xs"
  unfolding array_sort_def by (induction xs) (simp_all add: mset_insert_sorted)







lemma pairScores_total:
  assumes "\<forall>p\<in>set pairs. perf (fst p) = Some (P (fst p))"
  shows "pairScores perf pairs = Inr (map (\<lambda>(symb, w). (symb, pairScore (P symb) w)) pairs)"
  using assms by (induction pairs) auto

lemma set_array_sort: "set (array_sort c xs) = set xs"
  using mset_array_sort[of c xs] by (rule mset_eq_setD)

lemma insert_sorted_cong:
  assumes "\<forall>y\<in>set ys. (c x y \<le> 0) = (c' x y \<le> 0)"
  shows "insert_sorted c x ys = insert_sorted c' x ys"
  using assms by (induction ys) simp_all

lemma array_sort_cong:
  assumes "\<forall>a\<in>set xs. \<forall>b\<in>set xs. (c a b \<le> 0) = (c' a b \<le> 0)"
  shows "array_sort c xs = array_sort c' xs"
  using assms
proof (induction xs)
  case Nil
  show ?case by (simp add: array_sort_def)
next
  case (Cons x xs)
  have ih: "array_sort c xs = array_sort c' xs" using Cons by simp
  have "insert_sorted c x (array_sort c' xs) = insert_sorted c' x (array_sort c' xs)"
    using Cons.prems by (intro insert_sorted_cong) (simp add: set_array_sort)
  then show ?case using ih by (simp add: array_sort_def)
qed

text \<open>
  The difference of two doubles is zero or at least \<open>Number.MIN_VALUE\<close> in magnitude,
  so the rounded difference the comparator returns has the sign of the exact one.
\<close>

lemma array_sort_number_minus:
  assumes "\<forall>p\<in>set xs. snd p \<in> range round_double"
  shows "array_sort (\<lambda>a b. number_minus (snd b) (snd a)) xs = array_sort (\<lambda>a b. snd b - snd a) xs"
proof (rule array_sort_cong, intro ballI)
  fix a b assume "a \<in> set xs" "b \<in> set xs"
  then have "snd a \<in> range round_double" "snd b \<in> range round_double" using assms by auto
  then show "(number_minus (snd b) (snd a) \<le> 0) = (snd b - snd a \<le> 0)"
    using number_minus_sign[of "snd a" "snd b"] by simp
qed

lemma pairScore_double: "pairScore performance weight \<in> range round_double"
  by (simp add: pairScore_def number_plus_def)

lemma getTopTradingPairs_scored:
  assumes "\<forall>p\<in>set (tradingPairs st). pairPerformance st (fst p) = Some (perf (fst p))"
  shows "getTopTradingPairs st cnt =
           Inr (map fst (take cnt (array_sort (\<lambda>a b. snd b - snd a)
                  (map (\<lambda>(symb, w). (symb, pairScore (perf symb) w)) (tradingPairs st)))))"
proof -
  let ?scored = "map (\<lambda>(symb, w). (symb, pairScore (perf symb) w)) (tradingPairs st)"
  have "\<forall>p\<in>set ?scored. snd p \<in> range round_double"
    by (auto simp: pairScore_double)
  then have "array_sort (\<lambda>a b. number_minus (snd b) (snd a)) ?scored
               = array_sort (\<lambda>a b. snd b - snd a) ?scored"
    by (rule array_sort_number_minus)
  then show ?thesis by (simp add: getTopTradingPairs_def pairScores_total[OF assms])
qed


lemma getTopTradingPairs_initial:
  "getTopTradingPairs (newTradingService 0) 3 = Inr [''BTCUSDT'', ''ETHUSDT'', ''BNBUSDT'']"
proof -
  have "\<forall>p\<in>set (tradingPairs (newTradingService 0)).
      pairPerformance (newTradingService 0) (fst p)
        = Some ((\<lambda>_. \<lparr>volatility = 0, successRate = 0, lastUpdated = 0\<rparr>) (fst p))"
    by (simp add: newTradingService_def defaultTradingPairs_def)
  from getTopTradingPairs_scored[OF this, of 3] show ?thesis
    by (simp add: newTradingService_def defaultTradingPairs_def pairScore_def array_sort_def
        number_plus_def number_times_def double_3_10 double_3_10_again double_1_4 double_1_5
        double_1_5_again double_3_20 double_3_20_again double_1_10 double_1_10_again)
qed

subsection \<open>A ranking with a tie\<close>






section \<open>Properties of the scheduler\<close>

lemma ordersSubmitted_append:
  "ordersSubmitted (st\<lparr>gatewayCalls := gatewayCalls st @ [c]\<rparr>)
     = ordersSubmitted st @ (case c of ExecuteTrade p \<Rightarrow> [p] | _ \<Rightarrow> [])"
  by (simp add: ordersSubmitted_def)

lemma updatePairPerformance_frame:
  "gatewayCalls (updatePairPerformance d symbol b v st) = gatewayCalls st"
  "tradesTable (updatePairPerformance d symbol b v st) = tradesTable st"
  "balanceHistoryTable (updatePairPerformance d symbol b v st) = balanceHistoryTable st"
  "timers (updatePairPerformance d symbol b v st) = timers st"
  "runningIntervals (updatePairPerformance d symbol b v st) = runningIntervals st"
  "isRunning (updatePairPerformance d symbol b v st) = isRunning st"
  "maxConcurrentTrades (updatePairPerformance d symbol b v st) = maxConcurrentTrades st"
  "confidenceThreshold (updatePairPerformance d symbol b v st) = confidenceThreshold st"
  "tradingPairs (updatePairPerformance d symbol b v st) = tradingPairs st"
  "nextHandle (updatePairPerformance d symbol b v st) = nextHandle st"
  "tradingSettingsTable (updatePairPerformance d symbol b v st) = tradingSettingsTable st"
  by (simp_all add: updatePairPerformance_def split: option.splits)

lemma ordersSubmitted_updatePairPerformance:
  "ordersSubmitted (updatePairPerformance d symbol b v st) = ordersSubmitted st"
  by (simp add: ordersSubmitted_def updatePairPerformance_frame)

lemma executeSignal_at_cap:
  assumes "hasReachedMaxTrades st userId"
  shows "executeSignal d userId symbol risk vol sg st
           = st\<lparr>gatewayCalls := gatewayCalls st @ [GetAccountBalance]\<rparr>"
  using assms
  by (simp add: executeSignal_def getAccountBalance_def hasReachedMaxTrades_def
      getOpenTrades_def split: sum.splits)

lemma runTradingCycle_at_cap:
  assumes "hasReachedMaxTrades st userId"
  shows "ordersSubmitted (runTradingCycle d userId symbol strategyName risk st) = ordersSubmitted st"
    and "tradesTable (runTradingCycle d userId symbol strategyName risk st) = tradesTable st"
    and "balanceHistoryTable (runTradingCycle d userId symbol strategyName risk st)
           = balanceHistoryTable st"
proof -
  let ?st1 = "st\<lparr>gatewayCalls := gatewayCalls st @ [GetKlines symbol ''15m'' 100]\<rparr>"
  have cap1: "hasReachedMaxTrades ?st1 userId"
    using assms by (simp add: hasReachedMaxTrades_def getOpenTrades_def)
  have o1: "ordersSubmitted ?st1 = ordersSubmitted st" by (simp add: ordersSubmitted_append)
  show "ordersSubmitted (runTradingCycle d userId symbol strategyName risk st) = ordersSubmitted st"
    by (simp add: runTradingCycle_def getHistoricalData_def Let_def executeSignal_at_cap[OF cap1]
        updatePairPerformance_frame ordersSubmitted_def
        split: sum.splits option.splits)
  show "tradesTable (runTradingCycle d userId symbol strategyName risk st) = tradesTable st"
    by (simp add: runTradingCycle_def getHistoricalData_def Let_def executeSignal_at_cap[OF cap1]
        updatePairPerformance_frame split: sum.splits option.splits)
  show "balanceHistoryTable (runTradingCycle d userId symbol strategyName risk st)
          = balanceHistoryTable st"
    by (simp add: runTradingCycle_def getHistoricalData_def Let_def executeSignal_at_cap[OF cap1]
        updatePairPerformance_frame split: sum.splits option.splits)
qed

text \<open>
  C1: with \<open>maxConcurrentTrades = 3\<close> and at least three open trades of the account, the
  callback returns at its first check and leaves the whole state as it was (no gateway
  call at all, hence no order); and the second check inside the cycle stops every
  signal, whatever its confidence, before an order is submitted: neither
  \<open>executeSignal\<close> nor a whole \<open>runTradingCycle\<close> started in such a state adds an order
  or a trade.
\<close>

theorem C1_cap_blocks_orders:
  assumes "maxConcurrentTrades st = 3" "3 \<le> length (getOpenTrades st userId)"
  shows "tick d userId settings st = st
       \<and> ordersSubmitted (executeSignal d userId symbol risk vol sg st) = ordersSubmitted st
       \<and> tradesTable (executeSignal d userId symbol risk vol sg st) = tradesTable st
       \<and> ordersSubmitted (runTradingCycle d userId symbol strategyName risk st) = ordersSubmitted st
       \<and> tradesTable (runTradingCycle d userId symbol strategyName risk st) = tradesTable st"
proof -
  have cap: "hasReachedMaxTrades st userId"
    using assms by (simp add: hasReachedMaxTrades_def)
  have "tick d userId settings st = st" using cap by (simp add: tick_def)
  moreover have "ordersSubmitted (executeSignal d userId symbol risk vol sg st) = ordersSubmitted st"
    by (simp add: executeSignal_at_cap[OF cap] ordersSubmitted_append)
  moreover have "tradesTable (executeSignal d userId symbol risk vol sg st) = tradesTable st"
    by (simp add: executeSignal_at_cap[OF cap])
  ultimately show ?thesis using runTradingCycle_at_cap[OF cap] by simp
qed

theorem C1_cap_blocks_orders_witness:
  "maxConcurrentTrades ex_capped_state = 3
   \<and> 3 \<le> length (getOpenTrades ex_capped_state 1)
   \<and> tick ex_deps 1 ex_settings ex_capped_state = ex_capped_state
   \<and> ordersSubmitted (runTradingCycle ex_deps 1 ''ETHUSDT'' ''RSI'' 1 ex_capped_state) = []"
proof -
  have m: "maxConcurrentTrades ex_capped_state = 3"
    by (simp add: ex_capped_state_def ex_state_def newTradingService_def)
  have l: "3 \<le> length (getOpenTrades ex_capped_state 1)"
    by (simp add: ex_capped_state_def ex_state_def getOpenTrades_def ex_open_trade_def)
  have o: "ordersSubmitted ex_capped_state = []"
    by (simp add: ordersSubmitted_def ex_capped_state_def ex_state_def newTradingService_def)
  from C1_cap_blocks_orders[OF m l, of ex_deps ex_settings "''ETHUSDT''" 1 0 ex_signal "''RSI''"]
  show ?thesis using m l o by simp
qed


lemma analyzeMarket_short:
  "length candles < 50 \<Longrightarrow> analyzeMarket lib candles strategy = Inl NotEnoughData"
  by (simp add: analyzeMarket_def)

lemma runTradingCycle_frame:
  "timers (runTradingCycle d userId symbol strategyName risk st) = timers st"
  "runningIntervals (runTradingCycle d userId symbol strategyName risk st) = runningIntervals st"
  "isRunning (runTradingCycle d userId symbol strategyName risk st) = isRunning st"
  "nextHandle (runTradingCycle d userId symbol strategyName risk st) = nextHandle st"
  "maxConcurrentTrades (runTradingCycle d userId symbol strategyName risk st) = maxConcurrentTrades st"
  "confidenceThreshold (runTradingCycle d userId symbol strategyName risk st) = confidenceThreshold st"
  "tradingPairs (runTradingCycle d userId symbol strategyName risk st) = tradingPairs st"
  "tradingSettingsTable (runTradingCycle d userId symbol strategyName risk st) = tradingSettingsTable st"
  by (simp_all add: runTradingCycle_def getHistoricalData_def executeSignal_def getAccountBalance_def
      executeTrade_def createTrade_def recordBalance_def saveBalance_def Let_def
      updatePairPerformance_frame split: sum.splits option.splits)

lemma fold_runTradingCycle_frame:
  "timers (fold (\<lambda>symbol. runTradingCycle d userId symbol strategyName risk) symbols st) = timers st"
  "runningIntervals (fold (\<lambda>symbol. runTradingCycle d userId symbol strategyName risk) symbols st)
     = runningIntervals st"
  "isRunning (fold (\<lambda>symbol. runTradingCycle d userId symbol strategyName risk) symbols st)
     = isRunning st"
  by (induction symbols arbitrary: st) (simp_all add: runTradingCycle_frame)

lemma tick_keeps_timers:
  "timers (tick d userId settings st) = timers st"
  "runningIntervals (tick d userId settings st) = runningIntervals st"
  "isRunning (tick d userId settings st) = isRunning st"
  by (simp_all add: tick_def fold_runTradingCycle_frame runTradingCycle_frame split: sum.splits)

text \<open>
  C8: fewer than 50 candles make \<open>analyzeMarket\<close> fail with \<open>NotEnoughData\<close> (the
  \<open>Error('Not enough data for analysis')\<close>) for every strategy string and every
  indicator package; a trading cycle that receives such a sequence ends in its
  \<open>catch\<close>: the state after it is the state before it plus the logged candle fetch, so
  no order is submitted, no trade and no balance snapshot is stored, and the armed
  timers are untouched.
\<close>

theorem C8_insufficient_data_skips:
  assumes "length candles < 50"
    and "gw_getKlines (gw d) (length (gatewayCalls st)) symbol ''15m'' 100 = Inr candles"
  shows "analyzeMarket lib candles strategy = Inl NotEnoughData
       \<and> runTradingCycle d userId symbol strategyName risk st
           = st\<lparr>gatewayCalls := gatewayCalls st @ [GetKlines symbol ''15m'' 100]\<rparr>
       \<and> ordersSubmitted (runTradingCycle d userId symbol strategyName risk st) = ordersSubmitted st
       \<and> tradesTable (runTradingCycle d userId symbol strategyName risk st) = tradesTable st
       \<and> balanceHistoryTable (runTradingCycle d userId symbol strategyName risk st)
           = balanceHistoryTable st
       \<and> timers (runTradingCycle d userId symbol strategyName risk st) = timers st
       \<and> runningIntervals (runTradingCycle d userId symbol strategyName risk st)
           = runningIntervals st"
proof -
  have r: "runTradingCycle d userId symbol strategyName risk st
             = st\<lparr>gatewayCalls := gatewayCalls st @ [GetKlines symbol ''15m'' 100]\<rparr>"
    using assms by (simp add: runTradingCycle_def getHistoricalData_def analyzeMarket_short)
  show ?thesis unfolding r using assms(1)
    by (simp add: analyzeMarket_short ordersSubmitted_def)
qed

lemma length_falling_candles: "length falling_candles = 50"
  by (simp add: falling_candles_def)

theorem C8_insufficient_data_skips_witness:
  "length (take 49 falling_candles) < 50
   \<and> gw_getKlines (gw ex_short_deps) (length (gatewayCalls ex_running_state)) ''ETHUSDT'' ''15m'' 100
       = Inr (take 49 falling_candles)
   \<and> analyzeMarket technicalindicators (take 49 falling_candles) ''RSI'' = Inl NotEnoughData
   \<and> runTradingCycle ex_short_deps 1 ''ETHUSDT'' ''RSI'' 1 ex_running_state
       = ex_running_state\<lparr>gatewayCalls :=
           gatewayCalls ex_running_state @ [GetKlines ''ETHUSDT'' ''15m'' 100]\<rparr>
   \<and> timers (runTradingCycle ex_short_deps 1 ''ETHUSDT'' ''RSI'' 1 ex_running_state)
       = timers ex_running_state"
proof -
  have a: "length (take 49 falling_candles) < 50" by simp
  have b: "gw_getKlines (gw ex_short_deps) (length (gatewayCalls ex_running_state))
             ''ETHUSDT'' ''15m'' 100 = Inr (take 49 falling_candles)"
    by (simp add: ex_short_deps_def)
  from C8_insufficient_data_skips[OF a b, of technicalindicators "''RSI''" 1 "''RSI''" 1]
  show ?thesis using a b by simp
qed


subsection \<open>A cycle that trades\<close>

lemma runTradingCycle_trades:
  assumes k: "gw_getKlines (gw d) (length (gatewayCalls st)) symbol ''15m'' 100 = Inr candles"
    and a: "analyzeMarket (ti d) candles strategyName = Inr (Some sg)"
    and c: "confidenceThreshold st \<le> sig_confidence sg"
    and b: "gw_getAccountBalance (gw d) (Suc (length (gatewayCalls st))) = Inr balance"
    and h: "\<not> hasReachedMaxTrades st userId"
    and p: "greaterThan0 (calculatePositionSize (acc_availableBalance balance) risk
                            (sig_price sg) (sig_side sg))"
    and e: "gw_executeTrade (gw d) (Suc (Suc (length (gatewayCalls st))))
              \<lparr>tp_symbol = sig_symbol sg, tp_side = sig_side sg,
               tp_size = calculatePositionSize (acc_availableBalance balance) risk
                           (sig_price sg) (sig_side sg),
               tp_orderType = ''market''\<rparr> = Inr orderId"
  shows "gatewayCalls (runTradingCycle d userId symbol strategyName risk st)
           = gatewayCalls st @
               [GetKlines symbol ''15m'' 100, GetAccountBalance,
                ExecuteTrade \<lparr>tp_symbol = sig_symbol sg, tp_side = sig_side sg,
                   tp_size = calculatePositionSize (acc_availableBalance balance) risk
                               (sig_price sg) (sig_side sg),
                   tp_orderType = ''market''\<rparr>]"
    and "map tr_symbol (tradesTable (runTradingCycle d userId symbol strategyName risk st))
           = map tr_symbol (tradesTable st) @ [sig_symbol sg]"
  using k a c b h p e
  by (simp_all add: runTradingCycle_def getHistoricalData_def executeSignal_def
      getAccountBalance_def hasReachedMaxTrades_def getOpenTrades_def executeTrade_def
      createTrade_def recordBalance_def saveBalance_def Let_def updatePairPerformance_frame)

lemma analyzeMarket_falling_candles:
  "analyzeMarket technicalindicators falling_candles ''RSI'' = Inr (Some ex_signal)"
  by (simp add: analyzeMarket_def technicalindicators_def falling_candles_def upt_rec Let_def
      RSI_calculate_def wilder_average_def rsi_value_def ex_signal_def)

lemma dec_dividedBy_10_50: "dec_dividedBy 10 50 = 1 / 5"
  using toSignificantDigits_eval[of "-1" "1/5" dec_precision]
  by (simp add: dec_dividedBy_def dec_precision_def round_half_up_def)

lemma calculatePositionSize_1000_1_50: "calculatePositionSize 1000 1 50 sd = Dec (1 / 5)"
  by (simp add: calculatePositionSize_def positionSizeQuotient_def Let_def dec_dividedBy_1_100
      dec_times_1000_cent dec_dividedBy_10_50 toDecimalPlaces_def round_half_up_def)

lemma ex_running_state_eq:
  "ex_running_state =
     ex_state\<lparr>timers := [(0, 1, ex_settings)], nextHandle := 1,
              runningIntervals := Map.empty(1 \<mapsto> 0), isRunning := True\<rparr>"
  by (simp add: ex_running_state_def startTradingForUser_def getTradingSettings_def ex_state_def
      newTradingService_def ex_settings_def)

lemma ex_cycle:
  assumes "gatewayCalls st = []" "tradesTable st = []" "confidenceThreshold st = 70"
    "maxConcurrentTrades st = 3"
  shows "gatewayCalls (runTradingCycle ex_deps 1 ''ETHUSDT'' ''RSI'' 1 st)
           = [GetKlines ''ETHUSDT'' ''15m'' 100, GetAccountBalance, ExecuteTrade ex_order]"
    and "map tr_symbol (tradesTable (runTradingCycle ex_deps 1 ''ETHUSDT'' ''RSI'' 1 st))
           = [''BTCUSDT'']"
proof -
  let ?bal = "\<lparr>acc_totalBalance = 1000, acc_availableBalance = 1000, acc_frozenBalance = 0,
               acc_unrealizedPnl = 0, acc_marginBalance = 0\<rparr>"
  have k: "gw_getKlines (gw ex_deps) (length (gatewayCalls st)) ''ETHUSDT'' ''15m'' 100
             = Inr falling_candles"
    by (simp add: ex_deps_def ex_gateway_def)
  have a: "analyzeMarket (ti ex_deps) falling_candles ''RSI'' = Inr (Some ex_signal)"
    by (simp add: ex_deps_def analyzeMarket_falling_candles)
  have c: "confidenceThreshold st \<le> sig_confidence ex_signal"
    using assms by (simp add: ex_signal_def)
  have b: "gw_getAccountBalance (gw ex_deps) (Suc (length (gatewayCalls st))) = Inr ?bal"
    by (simp add: ex_deps_def ex_gateway_def)
  have h: "\<not> hasReachedMaxTrades st 1"
    using assms by (simp add: hasReachedMaxTrades_def getOpenTrades_def)
  have sz: "calculatePositionSize (acc_availableBalance ?bal) 1 (sig_price ex_signal)
              (sig_side ex_signal) = Dec (1 / 5)"
    by (simp add: ex_signal_def calculatePositionSize_1000_1_50)
  have p: "greaterThan0 (calculatePositionSize (acc_availableBalance ?bal) 1
                           (sig_price ex_signal) (sig_side ex_signal))"
    unfolding sz by simp
  have e: "gw_executeTrade (gw ex_deps) (Suc (Suc (length (gatewayCalls st))))
              \<lparr>tp_symbol = sig_symbol ex_signal, tp_side = sig_side ex_signal,
               tp_size = calculatePositionSize (acc_availableBalance ?bal) 1
                           (sig_price ex_signal) (sig_side ex_signal),
               tp_orderType = ''market''\<rparr> = Inr ''order-1''"
    by (simp add: ex_deps_def ex_gateway_def)
  note r = runTradingCycle_trades[OF k a c b h p e]
  show "gatewayCalls (runTradingCycle ex_deps 1 ''ETHUSDT'' ''RSI'' 1 st)
           = [GetKlines ''ETHUSDT'' ''15m'' 100, GetAccountBalance, ExecuteTrade ex_order]"
    unfolding r(1) sz using assms(1) by (simp add: ex_order_def ex_signal_def)
  show "map tr_symbol (tradesTable (runTradingCycle ex_deps 1 ''ETHUSDT'' ''RSI'' 1 st))
           = [''BTCUSDT'']"
    unfolding r(2) using assms(2) by (simp add: ex_signal_def)
qed


subsection \<open>The configuration a tick uses\<close>

lemma runTradingCycle_ignores_settings_table:
  "runTradingCycle d userId symbol strategyName risk (st\<lparr>tradingSettingsTable := table\<rparr>)
     = (runTradingCycle d userId symbol strategyName risk st)\<lparr>tradingSettingsTable := table\<rparr>"
  by (simp add: runTradingCycle_def getHistoricalData_def executeSignal_def getAccountBalance_def
      hasReachedMaxTrades_def getOpenTrades_def executeTrade_def createTrade_def
      recordBalance_def saveBalance_def updatePairPerformance_def Let_def
      split: sum.splits option.splits)

lemma fold_runTradingCycle_ignores_settings_table:
  "fold (\<lambda>symbol. runTradingCycle d userId symbol strategyName risk) symbols
        (st\<lparr>tradingSettingsTable := table\<rparr>)
     = (fold (\<lambda>symbol. runTradingCycle d userId symbol strategyName risk) symbols st)
         \<lparr>tradingSettingsTable := table\<rparr>"
  by (induction symbols arbitrary: st) (simp_all add: runTradingCycle_ignores_settings_table)

lemma tick_ignores_settings_table:
  "tick d userId settings (st\<lparr>tradingSettingsTable := table\<rparr>)
     = (tick d userId settings st)\<lparr>tradingSettingsTable := table\<rparr>"
  by (simp add: tick_def hasReachedMaxTrades_def getOpenTrades_def getTopTradingPairs_def
      fold_runTradingCycle_ignores_settings_table runTradingCycle_ignores_settings_table
      split: sum.splits)

text \<open>
  C5 (as stated): every tick re-reads the stored configuration and skips entirely when
  trading has been disabled since the timer was armed. In the scenario the account is
  started, the store is then changed to \<open>enabledTrading = false\<close>, and the next firing
  of the timer still fetches the candles and submits an order.
\<close>

theorem C5_disabled_account_still_trades_counterexample:
  "getTradingSettings ex_disabled_state 1 = Some (ex_settings\<lparr>ts_enabledTrading := False\<rparr>)
   \<and> candleFetches (fireTimer ex_deps 0 ex_disabled_state) = [GetKlines ''ETHUSDT'' ''15m'' 100]
   \<and> ordersSubmitted (fireTimer ex_deps 0 ex_disabled_state) = [ex_order]"
proof -
  have s: "getTradingSettings ex_disabled_state 1 = Some (ex_settings\<lparr>ts_enabledTrading := False\<rparr>)"
    by (simp add: ex_disabled_state_def getTradingSettings_def ex_settings_def)
  have f: "fireTimer ex_deps 0 ex_disabled_state
             = runTradingCycle ex_deps 1 ''ETHUSDT'' ''RSI'' 1 ex_disabled_state"
    by (simp add: fireTimer_def tick_def ex_disabled_state_def ex_running_state_eq ex_state_def
        newTradingService_def hasReachedMaxTrades_def getOpenTrades_def ex_settings_def)
  have g: "gatewayCalls (runTradingCycle ex_deps 1 ''ETHUSDT'' ''RSI'' 1 ex_disabled_state)
             = [GetKlines ''ETHUSDT'' ''15m'' 100, GetAccountBalance, ExecuteTrade ex_order]"
    by (rule ex_cycle(1))
       (simp_all add: ex_disabled_state_def ex_running_state_eq ex_state_def newTradingService_def)
  have cf: "candleFetches (fireTimer ex_deps 0 ex_disabled_state) = [GetKlines ''ETHUSDT'' ''15m'' 100]"
    unfolding f candleFetches_def g by simp
  have os: "ordersSubmitted (fireTimer ex_deps 0 ex_disabled_state) = [ex_order]"
    unfolding f ordersSubmitted_def g by simp
  show ?thesis using s cf os by (intro conjI) assumption+
qed

text \<open>
  C5 (amended): a tick acts on the trading settings the callback captured when the
  timer was armed; it never reads the trading settings of the store. Whatever the
  store holds as trading settings at the time of the tick (trading disabled
  included), the tick has the same effects: the same gateway calls, orders, trades and
  snapshots. (The open trades of the store are read by every tick, for the cap.)
\<close>

theorem C5_tick_uses_captured_settings:
  "tick d userId settings (st\<lparr>tradingSettingsTable := table\<rparr>)
     = (tick d userId settings st)\<lparr>tradingSettingsTable := table\<rparr>
   \<and> fireTimer d h (st\<lparr>tradingSettingsTable := table\<rparr>)
     = (fireTimer d h st)\<lparr>tradingSettingsTable := table\<rparr>
   \<and> gatewayCalls (fireTimer d h (st\<lparr>tradingSettingsTable := table\<rparr>))
     = gatewayCalls (fireTimer d h st)"
proof -
  have t: "tick d userId settings (st\<lparr>tradingSettingsTable := table\<rparr>)
             = (tick d userId settings st)\<lparr>tradingSettingsTable := table\<rparr>"
    by (rule tick_ignores_settings_table)
  have f: "fireTimer d h (st\<lparr>tradingSettingsTable := table\<rparr>)
             = (fireTimer d h st)\<lparr>tradingSettingsTable := table\<rparr>"
    by (simp add: fireTimer_def tick_ignores_settings_table split: option.splits prod.splits)
  show ?thesis using t f by simp
qed

subsection \<open>Starting twice\<close>

lemma handlesFresh_new: "handlesFresh (newTradingService t)"
  by (simp add: handlesFresh_def newTradingService_def)

lemma handlesFresh_start:
  "handlesFresh st \<Longrightarrow> handlesFresh (snd (startTradingForUser storeFailure userId st))"
  by (auto simp: handlesFresh_def startTradingForUser_def Let_def list_all_iff
      split: option.splits)

lemma handlesFresh_stop:
  "handlesFresh st \<Longrightarrow> handlesFresh (snd (stopTradingForUser userId st))"
  by (auto simp: handlesFresh_def stopTradingForUser_def list_all_iff split: option.splits)

lemma tick_keeps_nextHandle: "nextHandle (tick d userId settings st) = nextHandle st"
proof -
  have "nextHandle (fold (\<lambda>symbol. runTradingCycle d userId symbol strategyName risk) symbols s)
          = nextHandle s" for strategyName risk symbols s
    by (induction symbols arbitrary: s) (simp_all add: runTradingCycle_frame)
  then show ?thesis by (simp add: tick_def runTradingCycle_frame split: sum.splits)
qed

lemma handlesFresh_fireTimer:
  "handlesFresh st \<Longrightarrow> handlesFresh (fireTimer d h st)"
  by (simp add: handlesFresh_def fireTimer_def tick_keeps_timers tick_keeps_nextHandle
      split: option.splits prod.splits)

lemma filter_fresh_handle:
  assumes "list_all (\<lambda>t. fst t < (n::nat)) ts"
  shows "filter (\<lambda>t. fst t \<noteq> n) (ts @ [(n, u, s)]) = ts"
proof -
  have "\<forall>t\<in>set ts. fst t \<noteq> n" using assms by (auto simp: list_all_iff)
  then have "filter (\<lambda>t. fst t \<noteq> n) ts = ts" by (simp add: filter_id_conv)
  then show ?thesis by simp
qed

text \<open>
  What \<open>startTradingForUser\<close> does for an account whose loop is running and whose
  stored settings have trading enabled, and when it returns \<open>false\<close>.
\<close>

lemma startTradingForUser_while_running:
  assumes "runningIntervals st userId = Some h" "getTradingSettings st userId = Some settings"
    "ts_enabledTrading settings" "handlesFresh st"
  shows "fst (startTradingForUser None userId st) = True"
    and "timers (snd (startTradingForUser None userId st))
           = timers st @ [(nextHandle st, userId, settings)]"
    and "runningIntervals (snd (startTradingForUser None userId st)) userId = Some (nextHandle st)"
    and "timers (snd (stopTradingForUser userId (snd (startTradingForUser None userId st))))
           = timers st"
    and "runningIntervals (snd (stopTradingForUser userId (snd (startTradingForUser None userId st))))
           userId = None"
proof -
  let ?st' = "st\<lparr>timers := timers st @ [(nextHandle st, userId, settings)],
                  nextHandle := nextHandle st + 1,
                  runningIntervals := (runningIntervals st)(userId \<mapsto> nextHandle st),
                  isRunning := True\<rparr>"
  have start: "startTradingForUser None userId st = (True, ?st')"
    using assms by (simp add: startTradingForUser_def Let_def)
  have keep: "filter (\<lambda>t. fst t \<noteq> nextHandle st) (timers st @ [(nextHandle st, userId, settings)])
                = timers st"
    using assms by (intro filter_fresh_handle) (simp add: handlesFresh_def)
  show "fst (startTradingForUser None userId st) = True" by (simp add: start)
  show "timers (snd (startTradingForUser None userId st))
          = timers st @ [(nextHandle st, userId, settings)]" by (simp add: start)
  show "runningIntervals (snd (startTradingForUser None userId st)) userId = Some (nextHandle st)"
    by (simp add: start)
  show "timers (snd (stopTradingForUser userId (snd (startTradingForUser None userId st))))
          = timers st"
    using keep by (simp add: start stopTradingForUser_def)
  show "runningIntervals (snd (stopTradingForUser userId (snd (startTradingForUser None userId st))))
          userId = None"
    by (simp add: start stopTradingForUser_def)
qed

lemma startTradingForUser_false:
  "fst (startTradingForUser storeFailure userId st) = False \<longleftrightarrow>
     storeFailure \<noteq> None
     \<or> (case getTradingSettings st userId of None \<Rightarrow> True | Some s \<Rightarrow> \<not> ts_enabledTrading s)"
  "fst (startTradingForUser storeFailure userId st) = False
     \<Longrightarrow> snd (startTradingForUser storeFailure userId st) = st"
  by (auto simp: startTradingForUser_def Let_def split: option.splits if_splits)

lemma ex_restarted_state_eq:
  "ex_restarted_state =
     ex_state\<lparr>timers := [(0, 1, ex_settings), (1, 1, ex_settings)], nextHandle := 2,
              runningIntervals := Map.empty(1 \<mapsto> 1), isRunning := True\<rparr>"
  by (simp add: ex_restarted_state_def ex_running_state_eq startTradingForUser_def
      getTradingSettings_def ex_state_def newTradingService_def ex_settings_def)

lemma ex_stopped_state_eq:
  "ex_stopped_state =
     ex_state\<lparr>timers := [(0, 1, ex_settings)], nextHandle := 2,
              runningIntervals := Map.empty, isRunning := True\<rparr>"
  by (simp add: ex_stopped_state_def ex_restarted_state_eq stopTradingForUser_def)

text \<open>
  C10: starting an account whose loop is already running is claimed to be a no-op that
  returns "not started". The service keeps one handle per account in
  \<open>runningIntervals\<close>, stored "for later cleanup": it is the only timer
  \<open>stopTradingForUser\<close> can clear. \<open>startTradingForUser\<close> does not consult it. Started
  again, the running account of the scenario gets \<open>true\<close> and a second timer beside the
  first, and its registry entry is overwritten with the second handle. The stop that
  follows clears the second timer only and removes the entry; a further stop finds no
  entry and returns \<open>false\<close>; and the first timer, still armed, submits an order at its
  next firing.
\<close>

theorem C10_second_start_orphans_timer:
  "runningIntervals ex_running_state 1 = Some 0
   \<and> timers ex_running_state = [(0, 1, ex_settings)]
   \<and> fst (startTradingForUser None 1 ex_running_state) = True
   \<and> timers ex_restarted_state = [(0, 1, ex_settings), (1, 1, ex_settings)]
   \<and> runningIntervals ex_restarted_state 1 = Some 1
   \<and> fst (stopTradingForUser 1 ex_restarted_state) = True
   \<and> timers ex_stopped_state = [(0, 1, ex_settings)]
   \<and> runningIntervals ex_stopped_state 1 = None
   \<and> fst (stopTradingForUser 1 ex_stopped_state) = False
   \<and> candleFetches (fireTimer ex_deps 0 ex_stopped_state) = [GetKlines ''ETHUSDT'' ''15m'' 100]
   \<and> ordersSubmitted (fireTimer ex_deps 0 ex_stopped_state) = [ex_order]"
proof -
  have a: "runningIntervals ex_running_state 1 = Some 0"
      "timers ex_running_state = [(0, 1, ex_settings)]"
    by (simp_all add: ex_running_state_eq)
  have b: "fst (startTradingForUser None 1 ex_running_state) = True"
    by (simp add: ex_running_state_eq startTradingForUser_def getTradingSettings_def
        ex_state_def newTradingService_def ex_settings_def)
  have c: "timers ex_restarted_state = [(0, 1, ex_settings), (1, 1, ex_settings)]"
      "runningIntervals ex_restarted_state 1 = Some 1"
      "fst (stopTradingForUser 1 ex_restarted_state) = True"
    by (simp_all add: ex_restarted_state_eq stopTradingForUser_def)
  have d: "timers ex_stopped_state = [(0, 1, ex_settings)]"
      "runningIntervals ex_stopped_state 1 = None"
      "fst (stopTradingForUser 1 ex_stopped_state) = False"
    by (simp_all add: ex_stopped_state_eq stopTradingForUser_def)
  have f: "fireTimer ex_deps 0 ex_stopped_state
             = runTradingCycle ex_deps 1 ''ETHUSDT'' ''RSI'' 1 ex_stopped_state"
    by (simp add: fireTimer_def tick_def ex_stopped_state_eq ex_state_def
        newTradingService_def hasReachedMaxTrades_def getOpenTrades_def ex_settings_def)
  have g: "gatewayCalls (runTradingCycle ex_deps 1 ''ETHUSDT'' ''RSI'' 1 ex_stopped_state)
             = [GetKlines ''ETHUSDT'' ''15m'' 100, GetAccountBalance, ExecuteTrade ex_order]"
    by (rule ex_cycle(1))
       (simp_all add: ex_stopped_state_eq ex_state_def newTradingService_def)
  have cf: "candleFetches (fireTimer ex_deps 0 ex_stopped_state) = [GetKlines ''ETHUSDT'' ''15m'' 100]"
    unfolding f candleFetches_def g by simp
  have os: "ordersSubmitted (fireTimer ex_deps 0 ex_stopped_state) = [ex_order]"
    unfolding f ordersSubmitted_def g by simp
  show ?thesis using a b c d cf os by (intro conjI) assumption+
qed

subsection \<open>The symbol of a signal\<close>

lemma analyzeMarket_symbol:
  assumes "analyzeMarket lib candles strategy = Inr (Some sg)"
  shows "sig_symbol sg = ''BTCUSDT''"
  using assms unfolding analyzeMarket_def Let_def
  by (auto split: if_splits option.splits)

lemma executeSignal_symbols:
  "\<exists>os ts. ordersSubmitted (executeSignal d userId symbol risk vol sg st) = ordersSubmitted st @ os
         \<and> (\<forall>p\<in>set os. tp_symbol p = sig_symbol sg)
         \<and> tradesTable (executeSignal d userId symbol risk vol sg st) = tradesTable st @ ts
         \<and> (\<forall>t\<in>set ts. tr_symbol t = sig_symbol sg)"
proof -
  let ?st1 = "st\<lparr>gatewayCalls := gatewayCalls st @ [GetAccountBalance]\<rparr>"
  let ?r = "executeSignal d userId symbol risk vol sg st"
  have quiet: ?thesis if "?r = ?st1"
    unfolding that by (intro exI[of _ "[]"]) (simp add: ordersSubmitted_def)
  show ?thesis
  proof (cases "gw_getAccountBalance (gw d) (length (gatewayCalls st))")
    case (Inl e)
    then have "?r = ?st1" by (simp add: executeSignal_def getAccountBalance_def)
    then show ?thesis by (rule quiet)
  next
    case (Inr balance)
    let ?sz = "calculatePositionSize (acc_availableBalance balance) risk (sig_price sg) (sig_side sg)"
    let ?params = "\<lparr>tp_symbol = sig_symbol sg, tp_side = sig_side sg, tp_size = ?sz,
                    tp_orderType = ''market''\<rparr>"
    let ?st2 = "?st1\<lparr>gatewayCalls := gatewayCalls ?st1 @ [ExecuteTrade ?params]\<rparr>"
    show ?thesis
    proof (cases "hasReachedMaxTrades ?st1 userId \<or> \<not> greaterThan0 ?sz")
      case True
      then have "?r = ?st1" using Inr
        by (auto simp: executeSignal_def getAccountBalance_def Let_def)
      then show ?thesis by (rule quiet)
    next
      case False
      show ?thesis
      proof (cases "gw_executeTrade (gw d) (length (gatewayCalls ?st1)) ?params")
        case (Inl tradeError)
        then have r: "?r = updatePairPerformance d symbol False vol ?st2"
          using Inr False
          by (simp add: executeSignal_def getAccountBalance_def executeTrade_def Let_def)
        show ?thesis unfolding r
          by (intro exI[of _ "[?params]"] exI[of _ "[]"])
             (simp add: ordersSubmitted_def updatePairPerformance_frame)
      next
        case (Inr orderId)
        let ?trade = "\<lparr>tr_userId = userId, tr_symbol = sig_symbol sg, tr_side = sig_side sg,
                 tr_entryPrice = sig_price sg, tr_quantity = ?sz, tr_status = ''OPEN'',
                 tr_strategy = sig_strategy sg, tr_orderId = orderId,
                 tr_confidence = sig_confidence sg, tr_indicators = sig_indicators sg,
                 tr_timestamp = sig_time sg\<rparr>"
        have r: "?r = updatePairPerformance d symbol True vol
                        (recordBalance d userId balance (createTrade ?trade ?st2))"
          using Inr \<open>gw_getAccountBalance (gw d) (length (gatewayCalls st)) = Inr balance\<close> False
          by (simp add: executeSignal_def getAccountBalance_def executeTrade_def Let_def)
        show ?thesis unfolding r
          by (intro exI[of _ "[?params]"] exI[of _ "[?trade]"])
             (simp add: ordersSubmitted_def updatePairPerformance_frame recordBalance_def
                saveBalance_def createTrade_def)
      qed
    qed
  qed
qed

lemma runTradingCycle_symbols:
  "\<exists>os ts. ordersSubmitted (runTradingCycle d userId symbol strategyName risk st)
             = ordersSubmitted st @ os
         \<and> (\<forall>p\<in>set os. tp_symbol p = ''BTCUSDT'')
         \<and> tradesTable (runTradingCycle d userId symbol strategyName risk st) = tradesTable st @ ts
         \<and> (\<forall>t\<in>set ts. tr_symbol t = ''BTCUSDT'')"
proof -
  let ?st1 = "st\<lparr>gatewayCalls := gatewayCalls st @ [GetKlines symbol ''15m'' 100]\<rparr>"
  let ?r = "runTradingCycle d userId symbol strategyName risk st"
  have base: "ordersSubmitted ?st1 = ordersSubmitted st" "tradesTable ?st1 = tradesTable st"
    by (simp_all add: ordersSubmitted_def)
  have quiet: ?thesis if "ordersSubmitted ?r = ordersSubmitted st" "tradesTable ?r = tradesTable st"
    unfolding that by (intro exI[of _ "[]"]) simp
  show ?thesis
  proof (cases "gw_getKlines (gw d) (length (gatewayCalls st)) symbol ''15m'' 100")
    case (Inl e)
    then have "?r = ?st1" by (simp add: runTradingCycle_def getHistoricalData_def)
    then show ?thesis using base by (intro quiet) simp_all
  next
    case (Inr candles)
    note klines = Inr
    show ?thesis
    proof (cases "analyzeMarket (ti d) candles strategyName")
      case (Inl e)
      then have "?r = ?st1" using klines by (simp add: runTradingCycle_def getHistoricalData_def)
      then show ?thesis using base by (intro quiet) simp_all
    next
      case (Inr result)
      show ?thesis
      proof (cases result)
        case None
        then have "?r = updatePairPerformance d symbol True (calculateVolatility candles) ?st1"
          using klines Inr by (simp add: runTradingCycle_def getHistoricalData_def)
        then show ?thesis using base
          by (intro quiet) (simp_all add: updatePairPerformance_frame ordersSubmitted_def)
      next
        case (Some sg)
        have sy: "sig_symbol sg = ''BTCUSDT''"
          using Inr Some by (intro analyzeMarket_symbol[of "ti d" candles strategyName]) simp
        show ?thesis
        proof (cases "confidenceThreshold st \<le> sig_confidence sg")
          case True
          then have r: "?r = executeSignal d userId symbol risk (calculateVolatility candles) sg ?st1"
            using klines Inr Some by (simp add: runTradingCycle_def getHistoricalData_def)
          show ?thesis
            using executeSignal_symbols[of d userId symbol risk "calculateVolatility candles" sg ?st1]
            unfolding r sy base by simp
        next
          case False
          then have "?r = updatePairPerformance d symbol True (calculateVolatility candles) ?st1"
            using klines Inr Some by (simp add: runTradingCycle_def getHistoricalData_def)
          then show ?thesis using base
            by (intro quiet) (simp_all add: updatePairPerformance_frame ordersSubmitted_def)
        qed
      qed
    qed
  qed
qed

text \<open>
  C6: every signal \<open>analyzeMarket\<close> returns carries the symbol \<open>'BTCUSDT'\<close>, whatever
  candles, strategy and indicator package it was given; and every order a trading cycle
  submits and every trade it stores carries that symbol, whatever pair the cycle was
  run for.
\<close>

theorem C6_signal_symbol_is_constant:
  "(analyzeMarket lib candles strategy = Inr (Some sg) \<longrightarrow> sig_symbol sg = ''BTCUSDT'')
   \<and> (\<exists>os ts. ordersSubmitted (runTradingCycle d userId symbol strategyName risk st)
                 = ordersSubmitted st @ os
             \<and> (\<forall>p\<in>set os. tp_symbol p = ''BTCUSDT'')
             \<and> tradesTable (runTradingCycle d userId symbol strategyName risk st)
                 = tradesTable st @ ts
             \<and> (\<forall>t\<in>set ts. tr_symbol t = ''BTCUSDT''))"
  using analyzeMarket_symbol runTradingCycle_symbols by blast

theorem C6_signal_symbol_is_constant_witness:
  "analyzeMarket technicalindicators falling_candles ''RSI'' = Inr (Some ex_signal)
   \<and> sig_symbol ex_signal = ''BTCUSDT''
   \<and> ordersSubmitted (runTradingCycle ex_deps 1 ''ETHUSDT'' ''RSI'' 1 ex_state) = [ex_order]
   \<and> tp_symbol ex_order = ''BTCUSDT''
   \<and> map tr_symbol (tradesTable (runTradingCycle ex_deps 1 ''ETHUSDT'' ''RSI'' 1 ex_state))
       = [''BTCUSDT'']"
proof -
  have a: "analyzeMarket technicalindicators falling_candles ''RSI'' = Inr (Some ex_signal)"
    by (rule analyzeMarket_falling_candles)
  have s: "sig_symbol ex_signal = ''BTCUSDT''"
    using C6_signal_symbol_is_constant[of technicalindicators falling_candles "''RSI''" ex_signal]
      a by blast
  have st: "gatewayCalls ex_state = []" "tradesTable ex_state = []"
    "confidenceThreshold ex_state = 70" "maxConcurrentTrades ex_state = 3"
    by (simp_all add: ex_state_def newTradingService_def)
  have o: "ordersSubmitted (runTradingCycle ex_deps 1 ''ETHUSDT'' ''RSI'' 1 ex_state) = [ex_order]"
    unfolding ordersSubmitted_def ex_cycle(1)[OF st] by simp
  have p: "tp_symbol ex_order = ''BTCUSDT''" by (simp add: ex_order_def)
  show ?thesis using a s o p ex_cycle(2)[OF st] by (intro conjI) assumption+
qed

subsection \<open>The selector ENSEMBLE\<close>

lemma analyzeMarket_ENSEMBLE:
  "analyzeMarket lib candles ''ENSEMBLE''
     = (if length candles < 50 then Inl NotEnoughData else Inl (UnsupportedStrategy ''ENSEMBLE''))"
  by (simp add: analyzeMarket_def Let_def)

lemma runTradingCycle_ENSEMBLE:
  "runTradingCycle d userId symbol ''ENSEMBLE'' risk st
     = st\<lparr>gatewayCalls := gatewayCalls st @ [GetKlines symbol ''15m'' 100]\<rparr>"
  by (simp add: runTradingCycle_def getHistoricalData_def analyzeMarket_ENSEMBLE
      split: sum.splits)

lemma fold_runTradingCycle_ENSEMBLE:
  "fold (\<lambda>symbol. runTradingCycle d userId symbol ''ENSEMBLE'' risk) symbols st
     = st\<lparr>gatewayCalls := gatewayCalls st @ map (\<lambda>symbol. GetKlines symbol ''15m'' 100) symbols\<rparr>"
  by (induction symbols arbitrary: st) (simp_all add: runTradingCycle_ENSEMBLE)

text \<open>
  C3: an account configured with the selector ENSEMBLE. The callback selects the top
  pairs and passes the string \<open>'ENSEMBLE'\<close> itself to \<open>runTradingCycle\<close> and so to
  \<open>analyzeMarket\<close>, whose \<open>switch\<close> has no such case: with 50 candles or more it throws
  \<open>Unsupported strategy: ENSEMBLE\<close>, with fewer \<open>Not enough data\<close>; it never returns a
  signal. A tick of such an account only fetches candles: it submits no order, stores no
  trade and does not even update the pair performance. In the scenario (the initial
  service, 50 candles for every pair) the tick fetches the candles of the three top
  pairs and changes nothing else.
\<close>

theorem C3_ensemble_reaches_unsupported_strategy:
  "analyzeMarket lib candles ''ENSEMBLE''
     = (if length candles < 50 then Inl NotEnoughData else Inl (UnsupportedStrategy ''ENSEMBLE''))
   \<and> ordersSubmitted (tick d userId (settings\<lparr>ts_strategy := ''ENSEMBLE''\<rparr>) st) = ordersSubmitted st
   \<and> tradesTable (tick d userId (settings\<lparr>ts_strategy := ''ENSEMBLE''\<rparr>) st) = tradesTable st
   \<and> pairPerformance (tick d userId (settings\<lparr>ts_strategy := ''ENSEMBLE''\<rparr>) st) = pairPerformance st
   \<and> analyzeMarket technicalindicators falling_candles ''ENSEMBLE''
       = Inl (UnsupportedStrategy ''ENSEMBLE'')
   \<and> tick ex_deps 1 (ex_settings\<lparr>ts_strategy := ''ENSEMBLE''\<rparr>) ex_state
       = ex_state\<lparr>gatewayCalls :=
           [GetKlines ''BTCUSDT'' ''15m'' 100, GetKlines ''ETHUSDT'' ''15m'' 100,
            GetKlines ''BNBUSDT'' ''15m'' 100]\<rparr>"
proof -
  have t: "tick d userId (settings\<lparr>ts_strategy := ''ENSEMBLE''\<rparr>) st = st
           \<or> (\<exists>symbols. tick d userId (settings\<lparr>ts_strategy := ''ENSEMBLE''\<rparr>) st
                 = st\<lparr>gatewayCalls := gatewayCalls st
                        @ map (\<lambda>symbol. GetKlines symbol ''15m'' 100) symbols\<rparr>)"
    by (auto simp: tick_def fold_runTradingCycle_ENSEMBLE split: sum.splits)
  have o: "ordersSubmitted (tick d userId (settings\<lparr>ts_strategy := ''ENSEMBLE''\<rparr>) st)
             = ordersSubmitted st"
    using t by (auto simp: ordersSubmitted_def comp_def)
  have tr: "tradesTable (tick d userId (settings\<lparr>ts_strategy := ''ENSEMBLE''\<rparr>) st) = tradesTable st"
    using t by auto
  have pp: "pairPerformance (tick d userId (settings\<lparr>ts_strategy := ''ENSEMBLE''\<rparr>) st)
              = pairPerformance st"
    using t by auto
  have a: "analyzeMarket technicalindicators falling_candles ''ENSEMBLE''
             = Inl (UnsupportedStrategy ''ENSEMBLE'')"
    by (simp add: analyzeMarket_ENSEMBLE length_falling_candles)
  have top: "getTopTradingPairs ex_state 3 = Inr [''BTCUSDT'', ''ETHUSDT'', ''BNBUSDT'']"
    using getTopTradingPairs_initial by (simp add: getTopTradingPairs_def ex_state_def)
  have ex: "tick ex_deps 1 (ex_settings\<lparr>ts_strategy := ''ENSEMBLE''\<rparr>) ex_state
       = ex_state\<lparr>gatewayCalls :=
           [GetKlines ''BTCUSDT'' ''15m'' 100, GetKlines ''ETHUSDT'' ''15m'' 100,
            GetKlines ''BNBUSDT'' ''15m'' 100]\<rparr>"
    by (simp add: tick_def top runTradingCycle_ENSEMBLE hasReachedMaxTrades_def
        getOpenTrades_def)
       (simp add: ex_state_def newTradingService_def)
  show ?thesis using analyzeMarket_ENSEMBLE[of lib candles] o tr pp a ex by (intro conjI) assumption+
qed

section \<open>Properties of the signal engine\<close>

lemma analyzeMarket_negative_candles:
  "analyzeMarket technicalindicators negative_candles ''EMA'' = Inr (Some negative_signal)"
  by (simp add: analyzeMarket_def technicalindicators_def negative_candles_def upt_rec Let_def
      EMA_calculate_def sma_def negative_signal_def)


subsection \<open>Ranges of the indicators\<close>

lemma sum_list_pos_nonempty:
  "xs \<noteq> [] \<Longrightarrow> \<forall>x\<in>set xs. 0 < x \<Longrightarrow> 0 < sum_list (xs :: real list)"
proof (induction xs)
  case Nil
  then show ?case by simp
next
  case (Cons a xs)
  show ?case
  proof (cases "xs = []")
    case True
    then show ?thesis using Cons.prems by simp
  next
    case False
    then have "0 < sum_list xs" using Cons by simp
    then show ?thesis using Cons.prems by simp
  qed
qed

lemma sma_pos: "xs \<noteq> [] \<Longrightarrow> \<forall>x\<in>set xs. 0 < x \<Longrightarrow> 0 < sma xs"
  unfolding sma_def using sum_list_pos_nonempty[of xs] by simp

lemma ema_run_pos:
  assumes "0 < k" "k \<le> 1" "0 < prev" "\<forall>x\<in>set xs. 0 < x"
  shows "\<forall>y\<in>set (ema_run k prev xs). 0 < y"
  using assms(3,4)
proof (induction xs arbitrary: prev)
  case Nil
  show ?case by simp
next
  case (Cons x xs)
  have x: "0 < x" using Cons.prems by simp
  have "(x - prev) * k + prev = k * x + (1 - k) * prev" by (simp add: algebra_simps)
  moreover have "0 < k * x" using assms(1) x by simp
  moreover have "0 \<le> (1 - k) * prev" using assms(2) Cons.prems(1) by simp
  ultimately have new: "0 < (x - prev) * k + prev" by linarith
  have "\<forall>y\<in>set (ema_run k ((x - prev) * k + prev) xs). 0 < y"
    using Cons.IH[OF new] Cons.prems(2) by simp
  then show ?case using new by simp
qed

lemma EMA_calculate_pos:
  assumes "\<forall>v\<in>set vs. 0 < v"
  shows "\<forall>x\<in>set (EMA_calculate vs period). 0 < x"
proof (cases "period = 0 \<or> length vs < period")
  case True
  then show ?thesis by (simp add: EMA_calculate_def)
next
  case False
  then have p: "1 \<le> period" "period \<le> length vs" by simp_all
  have ne: "take period vs \<noteq> []" using p by auto
  have seed: "0 < sma (take period vs)"
    using assms by (intro sma_pos[OF ne]) (auto dest: in_set_takeD)
  have k: "0 < 2 / (real period + 1)" "2 / (real period + 1) \<le> 1" using p by simp_all
  have rest: "\<forall>x\<in>set (drop period vs). 0 < x" using assms by (auto dest: in_set_dropD)
  show ?thesis
    using False seed ema_run_pos[OF k seed rest] by (simp add: EMA_calculate_def)
qed

lemma wilder_run_nonneg:
  assumes "0 \<le> prev" "\<forall>x\<in>set xs. 0 \<le> x"
  shows "\<forall>y\<in>set (wilder_run period prev xs). 0 \<le> y"
  using assms
proof (induction xs arbitrary: prev)
  case Nil
  show ?case by simp
next
  case (Cons x xs)
  have new: "0 \<le> (prev * real (period - 1) + x) / real period"
    using Cons.prems by simp
  have "\<forall>y\<in>set (wilder_run period ((prev * real (period - 1) + x) / real period) xs). 0 \<le> y"
    using Cons.IH[OF new] Cons.prems(2) by simp
  then show ?case using new by simp
qed

lemma wilder_average_nonneg:
  assumes "\<forall>x\<in>set xs. 0 \<le> x"
  shows "\<forall>y\<in>set (wilder_average period xs). 0 \<le> y"
proof (cases "period = 0 \<or> length xs < period")
  case True
  then show ?thesis by (simp add: wilder_average_def)
next
  case False
  have "0 \<le> sum_list (take period xs)"
    using assms by (intro sum_list_nonneg) (auto dest: in_set_takeD)
  then have seed: "0 \<le> sum_list (take period xs) / real period" by simp
  have rest: "\<forall>x\<in>set (drop period xs). 0 \<le> x" using assms by (auto dest: in_set_dropD)
  show ?thesis
    using False seed wilder_run_nonneg[OF seed rest] by (simp add: wilder_average_def)
qed

lemma rsi_value_range:
  assumes "0 \<le> g" "0 \<le> l"
  shows "0 \<le> rsi_value g l \<and> rsi_value g l \<le> 100"
proof (cases "l = 0 \<or> g = 0")
  case True
  then show ?thesis by (auto simp: rsi_value_def)
next
  case False
  then have gl: "0 < g" "0 < l" using assms by simp_all
  define v where "v = 100 - 100 / (1 + g / l)"
  have rs: "0 < g / l" using gl by simp
  have d: "1 < 1 + g / l" using rs by simp
  have "100 / (1 + g / l) < 100 / 1" by (rule divide_strict_left_mono) (use d in auto)
  then have "100 / (1 + g / l) < 100" by simp
  moreover have "0 < 100 / (1 + g / l)" using rs by (simp add: add_pos_pos)
  ultimately have v: "0 < v" "v < 100" by (simp_all add: v_def)
  have "0 \<le> \<lfloor>v * 100 + 1 / 2\<rfloor>" using v(1) by (simp add: add_nonneg_nonneg)
  moreover have "\<lfloor>v * 100 + 1 / 2\<rfloor> \<le> 10000" using v(2) by linarith
  ultimately have "0 \<le> real_of_int \<lfloor>v * 100 + 1 / 2\<rfloor> / 100"
    "real_of_int \<lfloor>v * 100 + 1 / 2\<rfloor> / 100 \<le> 100" by simp_all
  then show ?thesis using False by (simp add: rsi_value_def v_def)
qed

lemma RSI_calculate_range:
  "\<forall>x\<in>set (RSI_calculate vs period). 0 \<le> x \<and> x \<le> 100"
proof
  fix x assume "x \<in> set (RSI_calculate vs period)"
  then obtain g l where gl: "x = rsi_value g l"
    "g \<in> set (wilder_average period (map (\<lambda>d. max d 0) (changes vs)))"
    "l \<in> set (wilder_average period (map (\<lambda>d. max (- d) 0) (changes vs)))"
    unfolding RSI_calculate_def by (auto dest: set_zip_leftD set_zip_rightD)
  have "0 \<le> g" using wilder_average_nonneg[of "map (\<lambda>d. max d 0) (changes vs)" period] gl(2) by simp
  moreover have "0 \<le> l"
    using wilder_average_nonneg[of "map (\<lambda>d. max (- d) 0) (changes vs)" period] gl(3) by simp
  ultimately show "0 \<le> x \<and> x \<le> 100" unfolding gl(1) by (rule rsi_value_range)
qed

lemma BollingerBands_calculate_ordered:
  assumes "0 \<le> stdDev"
  shows "\<forall>r\<in>set (BollingerBands_calculate vs period stdDev). bb_lower r \<le> bb_upper r"
proof -
  have "0 \<le> standard_deviation w" for w
    unfolding standard_deviation_def
    by (intro real_sqrt_ge_zero divide_nonneg_nonneg sum_list_nonneg) auto
  then have nn: "0 \<le> stdDev * standard_deviation w" for w
    using assms by simp
  have "sma w - stdDev * standard_deviation w \<le> sma w + stdDev * standard_deviation w" for w
    using nn[of w] by linarith
  then show ?thesis by (auto simp: BollingerBands_calculate_def)
qed


subsection \<open>The confidence of a signal\<close>

lemma calculateConfidence_MACD_range:
  "70 \<le> calculateConfidence ''MACD'' sd m s h \<and> calculateConfidence ''MACD'' sd m s h \<le> 95"
  by (simp add: calculateConfidence_def Let_def)

lemma min_70_95: "0 \<le> x \<Longrightarrow> 70 \<le> min (70 + x) 95 \<and> min (70 + x) (95::real) \<le> 95"
  by simp

lemma analyzeMarket_MACD_confidence:
  assumes "analyzeMarket lib candles ''MACD'' = Inr (Some sg)"
  shows "70 \<le> sig_confidence sg \<and> sig_confidence sg \<le> 95"
proof -
  from assms obtain sd m s h where "sig_confidence sg = calculateConfidence ''MACD'' sd m s h"
    unfolding analyzeMarket_def Let_def
    by (auto split: if_splits option.splits)
  then show ?thesis using calculateConfidence_MACD_range by simp
qed

lemma analyzeMarket_RSI_confidence:
  assumes "analyzeMarket lib candles ''RSI'' = Inr (Some sg)"
    and "\<forall>x\<in>set (ti_RSI lib (map candle_close candles) 14). 0 \<le> x \<and> x \<le> 100"
  shows "50 < sig_confidence sg \<and> sig_confidence sg \<le> 80"
proof -
  let ?rsi = "ti_RSI lib (map candle_close candles) 14"
  from assms(1) have ne: "?rsi \<noteq> []"
    unfolding analyzeMarket_def Let_def by (auto split: if_splits)
  then have r: "0 \<le> last ?rsi" "last ?rsi \<le> 100" using assms(2) last_in_set by blast+
  from assms(1) ne have
    "(last ?rsi < 30 \<and> sig_confidence sg = 80 - last ?rsi)
     \<or> (70 < last ?rsi \<and> sig_confidence sg = last ?rsi - 20)"
    unfolding analyzeMarket_def Let_def by (auto split: if_splits)
  then show ?thesis using r by auto
qed

lemma analyzeMarket_BOLLINGER_confidence:
  assumes "analyzeMarket lib candles ''BOLLINGER'' = Inr (Some sg)"
    and "\<forall>r\<in>set (ti_BollingerBands lib (map candle_close candles) 20 2). bb_lower r \<le> bb_upper r"
  shows "70 \<le> sig_confidence sg \<and> sig_confidence sg \<le> 95"
proof -
  let ?bb = "ti_BollingerBands lib (map candle_close candles) 20 2"
  let ?cur = "last ?bb"
  let ?price = "candle_close (last candles)"
  from assms(1) have ne: "?bb \<noteq> []"
    unfolding analyzeMarket_def Let_def by (auto split: if_splits)
  then have ord: "bb_lower ?cur \<le> bb_upper ?cur" using assms(2) last_in_set by blast
  from assms(1) ne have
    "(?price < bb_lower ?cur \<and> sig_confidence sg =
        (if bb_upper ?cur = bb_lower ?cur then 95
         else min (70 + (bb_lower ?cur - ?price) / (bb_upper ?cur - bb_lower ?cur) * 100) 95))
     \<or> (?price > bb_upper ?cur \<and> sig_confidence sg =
        (if bb_upper ?cur = bb_lower ?cur then 95
         else min (70 + (?price - bb_upper ?cur) / (bb_upper ?cur - bb_lower ?cur) * 100) 95))"
    unfolding analyzeMarket_def Let_def by (auto split: if_splits)
  then show ?thesis
  proof
    assume a: "?price < bb_lower ?cur \<and> sig_confidence sg =
        (if bb_upper ?cur = bb_lower ?cur then 95
         else min (70 + (bb_lower ?cur - ?price) / (bb_upper ?cur - bb_lower ?cur) * 100) 95)"
    show ?thesis
    proof (cases "bb_upper ?cur = bb_lower ?cur")
      case True
      then show ?thesis using a by simp
    next
      case False
      then have "0 < bb_upper ?cur - bb_lower ?cur" using ord by simp
      then have "0 \<le> (bb_lower ?cur - ?price) / (bb_upper ?cur - bb_lower ?cur) * 100"
        using a by simp
      from min_70_95[OF this] show ?thesis using a False by simp
    qed
  next
    assume a: "?price > bb_upper ?cur \<and> sig_confidence sg =
        (if bb_upper ?cur = bb_lower ?cur then 95
         else min (70 + (?price - bb_upper ?cur) / (bb_upper ?cur - bb_lower ?cur) * 100) 95)"
    show ?thesis
    proof (cases "bb_upper ?cur = bb_lower ?cur")
      case True
      then show ?thesis using a by simp
    next
      case False
      then have "0 < bb_upper ?cur - bb_lower ?cur" using ord by simp
      then have "0 \<le> (?price - bb_upper ?cur) / (bb_upper ?cur - bb_lower ?cur) * 100"
        using a by simp
      from min_70_95[OF this] show ?thesis using a False by simp
    qed
  qed
qed

lemma analyzeMarket_EMA_confidence:
  assumes "analyzeMarket lib candles ''EMA'' = Inr (Some sg)"
    and "\<forall>x\<in>set (ti_EMA lib (map candle_close candles) 21). 0 < x"
  shows "70 \<le> sig_confidence sg \<and> sig_confidence sg \<le> 95"
proof -
  let ?short = "ti_EMA lib (map candle_close candles) 9"
  let ?long = "ti_EMA lib (map candle_close candles) 21"
  from assms(1) have ne: "?long \<noteq> []"
    unfolding analyzeMarket_def Let_def by (auto split: if_splits)
  then have pos: "0 < last ?long" using assms(2) last_in_set by blast
  from assms(1) ne have
    "sig_confidence sg =
       (if last ?long = 0 then 95
        else min (70 + \<bar>last ?short - last ?long\<bar> / last ?long * 100 * 10) 95)"
    unfolding analyzeMarket_def Let_def by (auto split: if_splits)
  then have c: "sig_confidence sg = min (70 + \<bar>last ?short - last ?long\<bar> / last ?long * 100 * 10) 95"
    using pos by simp
  have "0 \<le> \<bar>last ?short - last ?long\<bar> / last ?long * 100 * 10" using pos by simp
  from min_70_95[OF this] show ?thesis unfolding c by simp
qed

text \<open>
  C2 (as stated): for every window of at least 50 candles the confidence of an emitted
  signal lies in [0,100]. The window \<open>negative_candles\<close> has 50 candles with closes
  -100 (48 times), -101 and -1; under the strategy EMA the fast average crosses above
  the slow one, a buy signal is emitted, and because the code divides by the (negative)
  slow average its confidence is about -47.7.
\<close>

theorem C2_negative_closes_counterexample:
  "length negative_candles = 50
   \<and> analyzeMarket technicalindicators negative_candles ''EMA'' = Inr (Some negative_signal)
   \<and> sig_confidence negative_signal < 0"
  by (simp add: analyzeMarket_negative_candles)
     (simp add: negative_candles_def negative_signal_def)

text \<open>
  C2 (amended): for every window of at least 50 candles and each of the strategies
  MACD, RSI, BOLLINGER and EMA, where for EMA the close prices are positive, the
  confidence of an emitted signal lies in [0,100] and does not exceed 95 (it is in fact
  above 50).
\<close>

theorem C2_confidence_in_range:
  assumes "50 \<le> length candles"
    and "strategy = ''MACD'' \<or> strategy = ''RSI'' \<or> strategy = ''BOLLINGER'' \<or> strategy = ''EMA''"
    and "strategy = ''EMA'' \<longrightarrow> (\<forall>c\<in>set candles. 0 < candle_close c)"
    and "analyzeMarket technicalindicators candles strategy = Inr (Some sg)"
  shows "0 \<le> sig_confidence sg \<and> sig_confidence sg \<le> 100 \<and> sig_confidence sg \<le> 95
       \<and> 50 < sig_confidence sg"
proof -
  consider "strategy = ''MACD''" | "strategy = ''RSI''" | "strategy = ''BOLLINGER''"
    | "strategy = ''EMA''" using assms(2) by blast
  then have "50 < sig_confidence sg \<and> sig_confidence sg \<le> 95"
  proof cases
    case 1
    then show ?thesis using analyzeMarket_MACD_confidence[of technicalindicators candles sg] assms(4)
      by simp
  next
    case 2
    have "\<forall>x\<in>set (ti_RSI technicalindicators (map candle_close candles) 14). 0 \<le> x \<and> x \<le> 100"
      using RSI_calculate_range by (simp add: technicalindicators_def)
    then show ?thesis using analyzeMarket_RSI_confidence[of technicalindicators candles sg] assms(4) 2
      by simp
  next
    case 3
    have "\<forall>r\<in>set (ti_BollingerBands technicalindicators (map candle_close candles) 20 2).
            bb_lower r \<le> bb_upper r"
      using BollingerBands_calculate_ordered[of 2] by (simp add: technicalindicators_def)
    then show ?thesis
      using analyzeMarket_BOLLINGER_confidence[of technicalindicators candles sg] assms(4) 3
      by simp
  next
    case 4
    then have "\<forall>v\<in>set (map candle_close candles). 0 < v" using assms(3) by simp
    then have "\<forall>x\<in>set (EMA_calculate (map candle_close candles) 21). 0 < x"
      by (rule EMA_calculate_pos)
    then have "\<forall>x\<in>set (ti_EMA technicalindicators (map candle_close candles) 21). 0 < x"
      by (simp add: technicalindicators_def)
    then show ?thesis using analyzeMarket_EMA_confidence[of technicalindicators candles sg] assms(4) 4
      by simp
  qed
  then show ?thesis by simp
qed


lemma analyzeMarket_rising_candles:
  "analyzeMarket technicalindicators rising_candles ''EMA'' = Inr (Some rising_signal)"
  by (simp add: analyzeMarket_def technicalindicators_def rising_candles_def upt_rec Let_def
      EMA_calculate_def sma_def rising_signal_def)

theorem C2_confidence_in_range_witness:
  "50 \<le> length rising_candles
   \<and> list_all (\<lambda>c. 0 < candle_close c) rising_candles
   \<and> analyzeMarket technicalindicators rising_candles ''EMA'' = Inr (Some rising_signal)
   \<and> 0 \<le> sig_confidence rising_signal \<and> sig_confidence rising_signal \<le> 95"
proof -
  have l: "50 \<le> length rising_candles" by (simp add: rising_candles_def)
  have p: "list_all (\<lambda>c. 0 < candle_close c) rising_candles"
    by (simp add: rising_candles_def list_all_iff)
  then have p': "''EMA'' = ''EMA'' \<longrightarrow> (\<forall>c\<in>set rising_candles. 0 < candle_close c)"
    by (simp add: list_all_iff)
  have s: "''EMA'' = ''MACD'' \<or> ''EMA'' = ''RSI'' \<or> ''EMA'' = ''BOLLINGER'' \<or> ''EMA'' = ''EMA''"
    by simp
  from C2_confidence_in_range[OF l s p' analyzeMarket_rising_candles]
  show ?thesis using l p analyzeMarket_rising_candles by simp
qed

end
